theory Spec2Isabelle
  imports Main
begin

section \<open>Strings and regular expressions of the host language\<close>

text \<open>
  A string is a list of characters, read as the code units of the host's strings; the
  strings of the model hold code units below 256. \<^verbatim>\<open>toUpperCase\<close> is the upper-casing
  of the Unicode standard, which depends on no locale and, below 256, on no neighbour:
  it maps \<^verbatim>\<open>a\<close>..\<^verbatim>\<open>z\<close> to \<^verbatim>\<open>A\<close>..\<^verbatim>\<open>Z\<close>, the letters U+00E0..U+00FE
  other than the division sign U+00F7 to the letters 32 below them, the micro sign
  U+00B5 to U+039C, the letter U+00FF to U+0178 and the sharp s U+00DF to the two
  letters \<^verbatim>\<open>SS\<close>, and leaves every other code unit alone. Two of these results are
  beyond 255, so the upper-cased form is given as a list of code units, and a string
  \<open>s\<close> is compared with it as \<open>map of_char s\<close>.
\<close>

definition toUpperCase_unit :: "char \<Rightarrow> nat list" where
  "toUpperCase_unit c =
     (let n = of_char c :: nat
      in if 97 \<le> n \<and> n \<le> 122 then [n - 32]
         else if n = 181 then [924]
         else if n = 223 then [83, 83]
         else if (224 \<le> n \<and> n \<le> 246) \<or> (248 \<le> n \<and> n \<le> 254) then [n - 32]
         else if n = 255 then [376]
         else [n])"

definition toUpperCase :: "string \<Rightarrow> nat list" where
  "toUpperCase s = concat (map toUpperCase_unit s)"

text \<open>
  A character class such as \<^verbatim>\<open>[a-z0-9]\<close> is a list of ranges of character codes; a
  single character \<^verbatim>\<open>_\<close> is the range from \<^verbatim>\<open>_\<close> to \<^verbatim>\<open>_\<close>.
\<close>

type_synonym char_ranges = "(char \<times> char) list"

definition in_ranges :: "char_ranges \<Rightarrow> char \<Rightarrow> bool" where
  "in_ranges rs c =
     list_ex (\<lambda>r. of_char (fst r) \<le> (of_char c :: nat) \<and> (of_char c :: nat) \<le> of_char (snd r)) rs"

text \<open>
  The fragment of regular expressions the source uses: literal characters, classes
  \<^verbatim>\<open>[...]\<close>, negated classes \<^verbatim>\<open>[^...]\<close>, sequencing and \<^verbatim>\<open>+\<close>.
  \<open>Fail\<close>, \<open>Empty\<close>, \<open>Alt\<close> and \<open>Star\<close> are there for the matcher, which works by
  derivatives: \<open>derive c r\<close> matches what \<open>r\<close> matches after a leading \<open>c\<close>.
\<close>

datatype rexp =
    Fail
  | Empty
  | Chr char
  | Set char_ranges
  | NotSet char_ranges
  | Alt rexp rexp
  | Seq rexp rexp
  | Star rexp

definition Plus :: "rexp \<Rightarrow> rexp" where
  "Plus r = Seq r (Star r)"

fun nullable :: "rexp \<Rightarrow> bool" where
  "nullable Fail = False"
| "nullable Empty = True"
| "nullable (Chr c) = False"
| "nullable (Set rs) = False"
| "nullable (NotSet rs) = False"
| "nullable (Alt r p) = (nullable r \<or> nullable p)"
| "nullable (Seq r p) = (nullable r \<and> nullable p)"
| "nullable (Star r) = True"

fun derive :: "char \<Rightarrow> rexp \<Rightarrow> rexp" where
  "derive c Fail = Fail"
| "derive c Empty = Fail"
| "derive c (Chr d) = (if c = d then Empty else Fail)"
| "derive c (Set rs) = (if in_ranges rs c then Empty else Fail)"
| "derive c (NotSet rs) = (if in_ranges rs c then Fail else Empty)"
| "derive c (Alt r p) = Alt (derive c r) (derive c p)"
| "derive c (Seq r p) =
     (if nullable r then Alt (Seq (derive c r) p) (derive c p) else Seq (derive c r) p)"
| "derive c (Star r) = Seq (derive c r) (Star r)"

text \<open>
  \<^verbatim>\<open>/^r$/.test(s)\<close>: both patterns tested in the source are anchored at both ends
  and carry no flags, so the test succeeds exactly when the whole of \<open>s\<close> matches \<open>r\<close>.
\<close>

definition RegExp_test :: "rexp \<Rightarrow> string \<Rightarrow> bool" where
  "RegExp_test r s = nullable (fold derive s r)"

text \<open>
  \<^verbatim>\<open>s.match(r)\<close> for an unanchored pattern \<open>r\<close> without flags that is a single
  character class: the result is the leftmost character of \<open>s\<close> that the class accepts
  (element 0 of the match array), or nothing (\<^verbatim>\<open>null\<close>).
\<close>

fun String_match :: "string \<Rightarrow> rexp \<Rightarrow> string option" where
  "String_match [] r = None"
| "String_match (c # s) r = (if RegExp_test r [c] then Some [c] else String_match s r)"

text \<open>\<^verbatim>\<open>xs.indexOf(x)\<close>: the first index holding \<open>x\<close>, or \<open>-1\<close>.\<close>

fun indexOf_from :: "string list \<Rightarrow> string \<Rightarrow> int \<Rightarrow> int" where
  "indexOf_from [] x i = - 1"
| "indexOf_from (y # ys) x i = (if y = x then i else indexOf_from ys x (i + 1))"

definition indexOf :: "string list \<Rightarrow> string \<Rightarrow> int" where
  "indexOf xs x = indexOf_from xs x 0"

text \<open>\<^verbatim>\<open>xs.toString()\<close> of an array of strings: the elements joined by commas.\<close>

fun Array_toString :: "string list \<Rightarrow> string" where
  "Array_toString [] = []"
| "Array_toString [x] = x"
| "Array_toString (x # y # ys) = x @ '','' @ Array_toString (y # ys)"

subsection \<open>The language of a regular expression\<close>

text \<open>
  The set of strings an expression denotes. It is the yardstick for the matcher and
  the bridge from the patterns to the grammars of the specification.
\<close>

definition conc :: "string set \<Rightarrow> string set \<Rightarrow> string set" where
  "conc A B = {u @ v |u v. u \<in> A \<and> v \<in> B}"

inductive_set star :: "string set \<Rightarrow> string set" for A :: "string set" where
  star_nil: "[] \<in> star A"
| star_app: "u \<in> A \<Longrightarrow> v \<in> star A \<Longrightarrow> u @ v \<in> star A"

fun lang :: "rexp \<Rightarrow> string set" where
  "lang Fail = {}"
| "lang Empty = {[]}"
| "lang (Chr c) = {[c]}"
| "lang (Set rs) = {[c] |c. in_ranges rs c}"
| "lang (NotSet rs) = {[c] |c. \<not> in_ranges rs c}"
| "lang (Alt r p) = lang r \<union> lang p"
| "lang (Seq r p) = conc (lang r) (lang p)"
| "lang (Star r) = star (lang r)"

section \<open>The parameter classes\<close>

datatype CommandLineParameterKind = Choice | Flag | Integer | String | StringList

text \<open>
  Modelled from the spec: the definition bundle passed to the constructors. Its
  interfaces (\<^verbatim>\<open>IBaseCommandLineDefinition\<close>, \<^verbatim>\<open>IBaseCommandLineDefinitionWithArgument\<close>,
  \<^verbatim>\<open>ICommandLineChoiceDefinition\<close> and the others of \<^verbatim>\<open>CommandLineDefinition.ts\<close>) are
  not among the sources. The record holds every property a constructor reads; each
  constructor reads the properties of its own interface only. A property that may be
  missing from the object (\<^verbatim>\<open>undefined\<close>) is an option. The documentation of
  \<^verbatim>\<open>IBaseCommandLineDefinitionWithArgument.argumentName\<close> declares it as
  \<^verbatim>\<open>argumentName: string\<close>; it is an option here so that the constructor's behaviour on
  a missing name can be stated.
\<close>

record ICommandLineDefinition =
  parameterLongName :: string
  parameterShortName :: "string option"
  definition_description :: string
  definition_argumentName :: "string option"
  definition_alternatives :: "string list"
  definition_defaultValue :: "string option"

text \<open>
  The objects. \<open>u_parserKey\<close> and \<open>u_value\<close> are the fields \<^verbatim>\<open>_parserKey\<close> and
  \<^verbatim>\<open>_value\<close>; no constructor assigns them, so they start \<^verbatim>\<open>undefined\<close> (\<open>None\<close>).
  The type \<open>'v\<close> is the type of the defined values a parser may inject; the payload of
  \<^verbatim>\<open>_setValue(data: any)\<close> is a \<open>'v option\<close>, \<open>None\<close> being \<^verbatim>\<open>undefined\<close>.
\<close>

record 'v CommandLineParameter =
  u_parserKey :: "string option"
  longName :: string
  shortName :: "string option"
  description :: string
  u_value :: "'v option"

record 'v CommandLineParameterWithArgument = "'v CommandLineParameter" +
  argumentName :: "string option"

record 'v CommandLineChoiceParameter = "'v CommandLineParameter" +
  alternatives :: "string list"
  defaultValue :: "string option"

type_synonym 'v CommandLineFlagParameter = "'v CommandLineParameter"
type_synonym 'v CommandLineIntegerParameter = "'v CommandLineParameterWithArgument"
type_synonym 'v CommandLineStringParameter = "'v CommandLineParameterWithArgument"
type_synonym 'v CommandLineStringListParameter = "'v CommandLineParameterWithArgument"

subsection \<open>Failures\<close>

text \<open>
  One constructor for each \<^verbatim>\<open>throw new Error(...)\<close> of the source, holding the
  values its message interpolates; \<open>message\<close> is the text. \<open>TypeError\<close> is what the
  runtime raises when a method is called on \<^verbatim>\<open>undefined\<close>.
\<close>

datatype failure =
    InvalidLongName string
  | InvalidShortName string
  | EmptyArgumentName
  | ArgumentNameNotUpperCase string
  | InvalidArgumentNameCharacter string string
  | InsufficientAlternatives
  | DefaultValueNotAnOption string "string list"

fun message :: "failure \<Rightarrow> string" where
  \<open>message (InvalidLongName name) =
     ''Invalid name: "'' @ name @ ''". The parameter long name must be''
     @ '' lower-case and use dash delimiters (e.g. "--do-a-thing")''\<close>
| \<open>message (InvalidShortName name) =
     ''Invalid name: "'' @ name @ ''". The parameter short name must be''
     @ '' a dash followed by a single letter (e.g. "-a")''\<close>
| \<open>message EmptyArgumentName =
     ''The argument name cannot be an empty string. (For the default name, specify undefined.)''\<close>
| \<open>message (ArgumentNameNotUpperCase name) =
     ''Invalid name: "'' @ name @ ''". The argument name must be all upper case.''\<close>
| \<open>message (InvalidArgumentNameCharacter name m) =
     ''The argument name "'' @ name @ ''" contains an invalid character "'' @ m @ ''".''
     @ '' Only upper-case letters, numbers, and underscores are allowed.''\<close>
| \<open>message InsufficientAlternatives =
     ''When defining a choice parameter, the alternatives list must contain at least one value.''\<close>
| \<open>message (DefaultValueNotAnOption v alts) =
     ''The specified default value "'' @ v @ ''"''
     @ '' is not one of the available options: '' @ Array_toString alts\<close>

datatype exn = Error failure | TypeError

subsection \<open>\<^verbatim>\<open>CommandLineParameter\<close>\<close>

definition longNameRegExp :: rexp where
  "longNameRegExp =
     Seq (Chr (CHR ''-''))
       (Plus (Seq (Chr (CHR ''-'')) (Plus (Set [(CHR ''a'', CHR ''z''), (CHR ''0'', CHR ''9'')]))))"

definition shortNameRegExp :: rexp where
  "shortNameRegExp =
     Seq (Chr (CHR ''-''))
       (Set [(CHR ''a'', CHR ''z''), (CHR ''A'', CHR ''Z''), (CHR ''0'', CHR ''9'')])"

text \<open>
  The constructor; \<open>this\<close> is the object as the assignments leave it when no check
  throws. \<^verbatim>\<open>if (definition.parameterShortName)\<close> holds for a string that is present
  and not empty.
\<close>

definition CommandLineParameter_constructor ::
    "ICommandLineDefinition \<Rightarrow> exn + 'v CommandLineParameter" where
  "CommandLineParameter_constructor def =
     (let this = \<lparr> u_parserKey = None,
                    longName = parameterLongName def,
                    shortName = parameterShortName def,
                    description = definition_description def,
                    u_value = None \<rparr>
      in
        if \<not> RegExp_test longNameRegExp (parameterLongName def)
        then Inl (Error (InvalidLongName (parameterLongName def)))
        else
          (case parameterShortName def of
             None \<Rightarrow> Inr this
           | Some s \<Rightarrow>
               if s \<noteq> [] \<and> \<not> RegExp_test shortNameRegExp s
               then Inl (Error (InvalidShortName s))
               else Inr this))"

text \<open>
  \<^verbatim>\<open>_setValue\<close> and the getter \<^verbatim>\<open>value\<close>, on every object that has the fields of
  the base class.
\<close>

definition setValue ::
    "('v, 'm) CommandLineParameter_scheme \<Rightarrow> 'v option \<Rightarrow> ('v, 'm) CommandLineParameter_scheme" where
  "setValue this data = this \<lparr> u_value := data \<rparr>"

definition value_get :: "('v, 'm) CommandLineParameter_scheme \<Rightarrow> 'v option" where
  "value_get this = u_value this"

subsection \<open>\<^verbatim>\<open>CommandLineParameterWithArgument\<close>\<close>

definition invalidArgumentNameRegExp :: rexp where
  "invalidArgumentNameRegExp =
     NotSet [(CHR ''A'', CHR ''Z''), (CHR ''_'', CHR ''_''), (CHR ''0'', CHR ''9'')]"

text \<open>
  After \<^verbatim>\<open>super(definition)\<close>, whose object is \<open>base\<close>: the comparison with the
  empty string is false for a missing name, and the call of \<^verbatim>\<open>toUpperCase\<close> on it
  raises a \<^verbatim>\<open>TypeError\<close>.
\<close>

definition CommandLineParameterWithArgument_constructor ::
    "ICommandLineDefinition \<Rightarrow> exn + 'v CommandLineParameterWithArgument" where
  "CommandLineParameterWithArgument_constructor def =
     (case CommandLineParameter_constructor def of
        Inl e \<Rightarrow> Inl e
      | Inr base \<Rightarrow>
          if definition_argumentName def = Some []
          then Inl (Error EmptyArgumentName)
          else
            (case definition_argumentName def of
               None \<Rightarrow> Inl TypeError
             | Some name \<Rightarrow>
                 if toUpperCase name \<noteq> map of_char name
                 then Inl (Error (ArgumentNameNotUpperCase name))
                 else
                   (case String_match name invalidArgumentNameRegExp of
                      Some m \<Rightarrow> Inl (Error (InvalidArgumentNameCharacter name m))
                    | None \<Rightarrow>
                        Inr \<lparr> u_parserKey = u_parserKey base,
                              longName = longName base,
                              shortName = shortName base,
                              description = description base,
                              u_value = u_value base,
                              argumentName = definition_argumentName def \<rparr>)))"

subsection \<open>The five concrete classes\<close>

text \<open>
  \<^verbatim>\<open>if (definition.defaultValue && ...)\<close> holds for a default that is present, not
  empty, and at no index of the alternatives.
\<close>

definition CommandLineChoiceParameter_constructor ::
    "ICommandLineDefinition \<Rightarrow> exn + 'v CommandLineChoiceParameter" where
  "CommandLineChoiceParameter_constructor def =
     (case CommandLineParameter_constructor def of
        Inl e \<Rightarrow> Inl e
      | Inr base \<Rightarrow>
          (let this = \<lparr> u_parserKey = u_parserKey base,
                         longName = longName base,
                         shortName = shortName base,
                         description = description base,
                         u_value = u_value base,
                         alternatives = definition_alternatives def,
                         defaultValue = definition_defaultValue def \<rparr>
           in
             if length (definition_alternatives def) \<le> 1
             then Inl (Error InsufficientAlternatives)
             else
               (case definition_defaultValue def of
                  None \<Rightarrow> Inr this
                | Some v \<Rightarrow>
                    if v \<noteq> [] \<and> indexOf (definition_alternatives def) v = - 1
                    then Inl (Error (DefaultValueNotAnOption v (definition_alternatives def)))
                    else Inr this)))"

definition CommandLineChoiceParameter_kind ::
    "'v CommandLineChoiceParameter \<Rightarrow> CommandLineParameterKind" where
  "CommandLineChoiceParameter_kind this = Choice"

definition CommandLineFlagParameter_constructor ::
    "ICommandLineDefinition \<Rightarrow> exn + 'v CommandLineFlagParameter" where
  "CommandLineFlagParameter_constructor def = CommandLineParameter_constructor def"

definition CommandLineFlagParameter_kind ::
    "'v CommandLineFlagParameter \<Rightarrow> CommandLineParameterKind" where
  "CommandLineFlagParameter_kind this = Flag"

definition CommandLineIntegerParameter_constructor ::
    "ICommandLineDefinition \<Rightarrow> exn + 'v CommandLineIntegerParameter" where
  "CommandLineIntegerParameter_constructor def = CommandLineParameterWithArgument_constructor def"

definition CommandLineIntegerParameter_kind ::
    "'v CommandLineIntegerParameter \<Rightarrow> CommandLineParameterKind" where
  "CommandLineIntegerParameter_kind this = Integer"

definition CommandLineStringParameter_constructor ::
    "ICommandLineDefinition \<Rightarrow> exn + 'v CommandLineStringParameter" where
  "CommandLineStringParameter_constructor def = CommandLineParameterWithArgument_constructor def"

definition CommandLineStringParameter_kind ::
    "'v CommandLineStringParameter \<Rightarrow> CommandLineParameterKind" where
  "CommandLineStringParameter_kind this = String"

definition CommandLineStringListParameter_constructor ::
    "ICommandLineDefinition \<Rightarrow> exn + 'v CommandLineStringListParameter" where
  "CommandLineStringListParameter_constructor def = CommandLineParameterWithArgument_constructor def"

definition CommandLineStringListParameter_kind ::
    "'v CommandLineStringListParameter \<Rightarrow> CommandLineParameterKind" where
  "CommandLineStringListParameter_kind this = StringList"

section \<open>The grammars of the specification\<close>

text \<open>
  The three naming grammars as the specification words them, independent of the
  patterns above. Long name: one leading dash, followed by one or more dash-delimited
  lower-case-alphanumeric segments. Short name: a dash followed by one letter or digit.
  Argument name: non-empty and made of upper-case letters, digits and underscores only.
\<close>

definition lower_case_letters :: string where
  "lower_case_letters = ''abcdefghijklmnopqrstuvwxyz''"

definition upper_case_letters :: string where
  "upper_case_letters = ''ABCDEFGHIJKLMNOPQRSTUVWXYZ''"

definition digits :: string where
  "digits = ''0123456789''"

text \<open>
  The code units below 256 that are not their own upper-case form: the lower-case
  letters \<^verbatim>\<open>a\<close>..\<^verbatim>\<open>z\<close>, the micro sign (181), the sharp s (223), and the accented
  lower-case letters 224..246 and 248..255.
\<close>

definition lower_case_code_unit :: "char \<Rightarrow> bool" where
  "lower_case_code_unit c \<longleftrightarrow>
     c \<in> set lower_case_letters \<or> (of_char c :: nat) = 181 \<or>
     (223 \<le> (of_char c :: nat) \<and> (of_char c :: nat) \<le> 246) \<or> 248 \<le> (of_char c :: nat)"

definition long_name_segment :: "string \<Rightarrow> bool" where
  "long_name_segment seg \<longleftrightarrow>
     seg \<noteq> [] \<and> (\<forall>c \<in> set seg. c \<in> set lower_case_letters \<or> c \<in> set digits)"

definition long_name_grammar :: "string \<Rightarrow> bool" where
  "long_name_grammar s \<longleftrightarrow>
     (\<exists>segs. segs \<noteq> [] \<and> (\<forall>seg \<in> set segs. long_name_segment seg) \<and>
        s = CHR ''-'' # concat (map (\<lambda>seg. CHR ''-'' # seg) segs))"

definition short_name_grammar :: "string \<Rightarrow> bool" where
  "short_name_grammar s \<longleftrightarrow>
     (\<exists>c. s = [CHR ''-'', c] \<and>
        (c \<in> set lower_case_letters \<or> c \<in> set upper_case_letters \<or> c \<in> set digits))"

definition argument_name_character :: "char \<Rightarrow> bool" where
  "argument_name_character c \<longleftrightarrow>
     c \<in> set upper_case_letters \<or> c \<in> set digits \<or> c = CHR ''_''"

definition argument_name_grammar :: "string \<Rightarrow> bool" where
  "argument_name_grammar s \<longleftrightarrow> s \<noteq> [] \<and> (\<forall>c \<in> set s. argument_name_character c)"

section \<open>A definition to run the constructors on\<close>

text \<open>
  The end-to-end example of the specification, \<^verbatim>\<open>--max-count NUMBER\<close>, with a short
  name and, for the choice class, two alternatives and a default.
\<close>

definition max_count_definition :: ICommandLineDefinition where
  "max_count_definition =
     \<lparr> parameterLongName = ''--max-count'',
       parameterShortName = Some ''-m'',
       definition_description = ''The maximum count'',
       definition_argumentName = Some ''NUMBER'',
       definition_alternatives = [''a'', ''b''],
       definition_defaultValue = Some ''a'' \<rparr>"

section \<open>The matcher decides the language\<close>

lemma nullable_lang: "nullable r \<longleftrightarrow> [] \<in> lang r"
  by (induction r) (auto simp: conc_def intro: star.star_nil)

lemma cons_in_conc:
  "c # s \<in> conc A B \<longleftrightarrow>
     (\<exists>u v. s = u @ v \<and> c # u \<in> A \<and> v \<in> B) \<or> ([] \<in> A \<and> c # s \<in> B)"
  unfolding conc_def
  by (auto simp: Cons_eq_append_conv)

lemma star_cons_split:
  assumes "w \<in> star A" and "w = c # s"
  shows "\<exists>u v. s = u @ v \<and> c # u \<in> A \<and> v \<in> star A"
  using assms
proof (induction arbitrary: s rule: star.induct)
  case star_nil
  then show ?case by simp
next
  case (star_app u v)
  show ?case
  proof (cases u)
    case Nil
    with star_app show ?thesis by simp
  next
    case (Cons a u')
    with star_app.prems have "a = c" and "s = u' @ v" by simp_all
    with Cons star_app.hyps show ?thesis by blast
  qed
qed

lemma cons_in_star:
  "c # s \<in> star A \<longleftrightarrow> (\<exists>u v. s = u @ v \<and> c # u \<in> A \<and> v \<in> star A)"
proof
  assume "c # s \<in> star A"
  then show "\<exists>u v. s = u @ v \<and> c # u \<in> A \<and> v \<in> star A"
    by (rule star_cons_split) simp
next
  assume "\<exists>u v. s = u @ v \<and> c # u \<in> A \<and> v \<in> star A"
  then obtain u v where "s = u @ v" "c # u \<in> A" "v \<in> star A" by blast
  then show "c # s \<in> star A"
    using star.star_app [of "c # u" A v] by simp
qed

lemma mem_conc_derived:
  "s \<in> conc {t. c # t \<in> A} B \<longleftrightarrow> (\<exists>u v. s = u @ v \<and> c # u \<in> A \<and> v \<in> B)"
  unfolding conc_def by blast

lemma lang_derive: "lang (derive c r) = {s. c # s \<in> lang r}"
proof (induction r)
  case (Seq r p)
  show ?case
  proof (rule set_eqI)
    fix s
    show "s \<in> lang (derive c (Seq r p)) \<longleftrightarrow> s \<in> {s. c # s \<in> lang (Seq r p)}"
      using Seq by (simp add: cons_in_conc nullable_lang mem_conc_derived)
  qed
next
  case (Star r)
  show ?case
  proof (rule set_eqI)
    fix s
    show "s \<in> lang (derive c (Star r)) \<longleftrightarrow> s \<in> {s. c # s \<in> lang (Star r)}"
      using Star by (simp add: cons_in_star mem_conc_derived)
  qed
qed auto

lemma RegExp_test_lang: "RegExp_test r s \<longleftrightarrow> s \<in> lang r"
  unfolding RegExp_test_def
  by (induction s arbitrary: r) (simp_all add: nullable_lang lang_derive)

subsection \<open>Character classes as enumerations\<close>

lemma lower_codes: "map char_of [97..<123::nat] = lower_case_letters"
  unfolding lower_case_letters_def by code_simp

lemma range_lower:
  "97 \<le> (of_char c :: nat) \<and> (of_char c :: nat) \<le> 122 \<longleftrightarrow> c \<in> set lower_case_letters"
proof
  assume "97 \<le> (of_char c :: nat) \<and> (of_char c :: nat) \<le> 122"
  then have "(of_char c :: nat) \<in> {97..<123}" by simp
  then have "char_of (of_char c :: nat) \<in> char_of ` {97..<123::nat}" by (rule imageI)
  also have "char_of ` {97..<123::nat} = set (map char_of [97..<123::nat])"
    by (simp only: set_map set_upt)
  finally show "c \<in> set lower_case_letters"
    unfolding lower_codes by simp
next
  assume "c \<in> set lower_case_letters"
  then show "97 \<le> (of_char c :: nat) \<and> (of_char c :: nat) \<le> 122"
    unfolding lower_case_letters_def by auto
qed

lemma upper_codes: "map char_of [65..<91::nat] = upper_case_letters"
  unfolding upper_case_letters_def by code_simp

lemma range_upper:
  "65 \<le> (of_char c :: nat) \<and> (of_char c :: nat) \<le> 90 \<longleftrightarrow> c \<in> set upper_case_letters"
proof
  assume "65 \<le> (of_char c :: nat) \<and> (of_char c :: nat) \<le> 90"
  then have "(of_char c :: nat) \<in> {65..<91}" by simp
  then have "char_of (of_char c :: nat) \<in> char_of ` {65..<91::nat}" by (rule imageI)
  also have "char_of ` {65..<91::nat} = set (map char_of [65..<91::nat])"
    by (simp only: set_map set_upt)
  finally show "c \<in> set upper_case_letters"
    unfolding upper_codes by simp
next
  assume "c \<in> set upper_case_letters"
  then show "65 \<le> (of_char c :: nat) \<and> (of_char c :: nat) \<le> 90"
    unfolding upper_case_letters_def by auto
qed

lemma digit_codes: "map char_of [48..<58::nat] = digits"
  unfolding digits_def by code_simp

lemma range_digit:
  "48 \<le> (of_char c :: nat) \<and> (of_char c :: nat) \<le> 57 \<longleftrightarrow> c \<in> set digits"
proof
  assume "48 \<le> (of_char c :: nat) \<and> (of_char c :: nat) \<le> 57"
  then have "(of_char c :: nat) \<in> {48..<58}" by simp
  then have "char_of (of_char c :: nat) \<in> char_of ` {48..<58::nat}" by (rule imageI)
  also have "char_of ` {48..<58::nat} = set (map char_of [48..<58::nat])"
    by (simp only: set_map set_upt)
  finally show "c \<in> set digits"
    unfolding digit_codes by simp
next
  assume "c \<in> set digits"
  then show "48 \<le> (of_char c :: nat) \<and> (of_char c :: nat) \<le> 57"
    unfolding digits_def by auto
qed

lemma underscore_code: "char_of (95::nat) = CHR ''_''"
  by code_simp

lemma range_underscore:
  "95 \<le> (of_char c :: nat) \<and> (of_char c :: nat) \<le> 95 \<longleftrightarrow> c = CHR ''_''"
proof
  assume "95 \<le> (of_char c :: nat) \<and> (of_char c :: nat) \<le> 95"
  then have "(of_char c :: nat) = 95" by simp
  then have "char_of (of_char c :: nat) = char_of (95::nat)" by simp
  then show "c = CHR ''_''"
    by (simp add: underscore_code)
qed simp

lemma long_name_class:
  "in_ranges [(CHR ''a'', CHR ''z''), (CHR ''0'', CHR ''9'')] c \<longleftrightarrow>
     c \<in> set lower_case_letters \<or> c \<in> set digits"
  using range_lower [of c] range_digit [of c] by (simp add: in_ranges_def)

lemma short_name_class:
  "in_ranges [(CHR ''a'', CHR ''z''), (CHR ''A'', CHR ''Z''), (CHR ''0'', CHR ''9'')] c \<longleftrightarrow>
     c \<in> set lower_case_letters \<or> c \<in> set upper_case_letters \<or> c \<in> set digits"
  using range_lower [of c] range_upper [of c] range_digit [of c] by (simp add: in_ranges_def)

lemma argument_name_class:
  "in_ranges [(CHR ''A'', CHR ''Z''), (CHR ''_'', CHR ''_''), (CHR ''0'', CHR ''9'')] c \<longleftrightarrow>
     argument_name_character c"
  using range_upper [of c] range_underscore [of c] range_digit [of c]
  by (auto simp: in_ranges_def argument_name_character_def)

subsection \<open>The patterns and the grammars\<close>

lemma star_concat: "x \<in> star A \<longleftrightarrow> (\<exists>ws. set ws \<subseteq> A \<and> x = concat ws)"
proof
  assume "x \<in> star A"
  then show "\<exists>ws. set ws \<subseteq> A \<and> x = concat ws"
  proof (induction rule: star.induct)
    case star_nil
    have "set [] \<subseteq> A \<and> [] = concat ([] :: string list)" by simp
    then show ?case by blast
  next
    case (star_app u v)
    then obtain ws where "set ws \<subseteq> A" "v = concat ws" by blast
    with star_app.hyps(1) have "set (u # ws) \<subseteq> A \<and> u @ v = concat (u # ws)" by simp
    then show ?case by blast
  qed
next
  assume "\<exists>ws. set ws \<subseteq> A \<and> x = concat ws"
  then obtain ws where "set ws \<subseteq> A" "x = concat ws" by blast
  then show "x \<in> star A"
    by (induction ws arbitrary: x) (auto intro: star.intros)
qed

lemma lang_Plus: "lang (Plus r) = {concat ws |ws. ws \<noteq> [] \<and> set ws \<subseteq> lang r}"
proof (rule set_eqI)
  fix x
  show "x \<in> lang (Plus r) \<longleftrightarrow> x \<in> {concat ws |ws. ws \<noteq> [] \<and> set ws \<subseteq> lang r}"
  proof
    assume "x \<in> lang (Plus r)"
    then obtain u ws where "u \<in> lang r" "set ws \<subseteq> lang r" "x = u @ concat ws"
      by (auto simp: Plus_def conc_def star_concat)
    then have "x = concat (u # ws) \<and> u # ws \<noteq> [] \<and> set (u # ws) \<subseteq> lang r" by simp
    then show "x \<in> {concat ws |ws. ws \<noteq> [] \<and> set ws \<subseteq> lang r}" by blast
  next
    assume "x \<in> {concat ws |ws. ws \<noteq> [] \<and> set ws \<subseteq> lang r}"
    then obtain ws where ws: "ws \<noteq> []" "set ws \<subseteq> lang r" "x = concat ws" by blast
    then obtain u us where "ws = u # us" by (cases ws) auto
    with ws have "u \<in> lang r" "concat us \<in> star (lang r)" "x = u @ concat us"
      by (auto simp: star_concat)
    then show "x \<in> lang (Plus r)"
      by (auto simp: Plus_def conc_def)
  qed
qed

lemma concat_units:
  "(\<exists>ws. ws \<noteq> [] \<and> set ws \<subseteq> {[c] |c. P c} \<and> s = concat ws) \<longleftrightarrow> s \<noteq> [] \<and> (\<forall>c \<in> set s. P c)"
proof
  assume "\<exists>ws. ws \<noteq> [] \<and> set ws \<subseteq> {[c] |c. P c} \<and> s = concat ws"
  then obtain ws where "ws \<noteq> []" "set ws \<subseteq> {[c] |c. P c}" "s = concat ws" by blast
  then show "s \<noteq> [] \<and> (\<forall>c \<in> set s. P c)"
    by (induction ws arbitrary: s) auto
next
  assume s: "s \<noteq> [] \<and> (\<forall>c \<in> set s. P c)"
  let ?ws = "map (\<lambda>c. [c]) s"
  from s have "?ws \<noteq> [] \<and> set ?ws \<subseteq> {[c] |c. P c} \<and> s = concat ?ws"
    by (induction s) auto
  then show "\<exists>ws. ws \<noteq> [] \<and> set ws \<subseteq> {[c] |c. P c} \<and> s = concat ws" by blast
qed

lemma lang_Plus_Set: "lang (Plus (Set rs)) = {s. s \<noteq> [] \<and> (\<forall>c \<in> set s. in_ranges rs c)}"
proof (rule set_eqI)
  fix s
  have "s \<in> lang (Plus (Set rs)) \<longleftrightarrow>
        (\<exists>ws. ws \<noteq> [] \<and> set ws \<subseteq> {[c] |c. in_ranges rs c} \<and> s = concat ws)"
    by (auto simp: lang_Plus)
  then show "s \<in> lang (Plus (Set rs)) \<longleftrightarrow> s \<in> {s. s \<noteq> [] \<and> (\<forall>c \<in> set s. in_ranges rs c)}"
    by (simp add: concat_units)
qed

lemma lang_Seq_Chr: "lang (Seq (Chr c) r) = {c # x |x. x \<in> lang r}"
  by (auto simp: conc_def)

lemma lang_segment:
  "lang (Seq (Chr (CHR ''-'')) (Plus (Set [(CHR ''a'', CHR ''z''), (CHR ''0'', CHR ''9'')]))) =
     {CHR ''-'' # seg |seg. long_name_segment seg}"
  by (simp only: lang_Seq_Chr lang_Plus_Set long_name_class long_name_segment_def mem_Collect_eq)

lemma lang_longNameRegExp:
  "lang longNameRegExp =
     {CHR ''-'' # concat ws |ws. ws \<noteq> [] \<and> set ws \<subseteq> {CHR ''-'' # seg |seg. long_name_segment seg}}"
proof -
  let ?G = "Seq (Chr (CHR ''-'')) (Plus (Set [(CHR ''a'', CHR ''z''), (CHR ''0'', CHR ''9'')]))"
  have 1: "lang longNameRegExp = {CHR ''-'' # x |x. x \<in> lang (Plus ?G)}"
    unfolding longNameRegExp_def by (rule lang_Seq_Chr)
  have 2: "lang (Plus ?G) = {concat ws |ws. ws \<noteq> [] \<and> set ws \<subseteq> lang ?G}"
    by (rule lang_Plus)
  show ?thesis
    unfolding 1 2 lang_segment by blast
qed

lemma longNameRegExp_grammar: "RegExp_test longNameRegExp s \<longleftrightarrow> long_name_grammar s"
proof
  assume "RegExp_test longNameRegExp s"
  then obtain ws where ws: "ws \<noteq> []" "s = CHR ''-'' # concat ws"
     "\<forall>w \<in> set ws. \<exists>seg. w = CHR ''-'' # seg \<and> long_name_segment seg"
    unfolding RegExp_test_lang lang_longNameRegExp by (auto simp: subset_iff)
  let ?segs = "map tl ws"
  from ws(3) have "map (\<lambda>seg. CHR ''-'' # seg) ?segs = ws"
    by (induction ws) auto
  with ws have "?segs \<noteq> [] \<and> (\<forall>seg \<in> set ?segs. long_name_segment seg) \<and>
        s = CHR ''-'' # concat (map (\<lambda>seg. CHR ''-'' # seg) ?segs)"
    by auto
  then show "long_name_grammar s"
    unfolding long_name_grammar_def by blast
next
  assume "long_name_grammar s"
  then obtain segs where segs: "segs \<noteq> []" "\<forall>seg \<in> set segs. long_name_segment seg"
      "s = CHR ''-'' # concat (map (\<lambda>seg. CHR ''-'' # seg) segs)"
    unfolding long_name_grammar_def by blast
  let ?ws = "map (\<lambda>seg. CHR ''-'' # seg) segs"
  from segs have "?ws \<noteq> [] \<and> s = CHR ''-'' # concat ?ws \<and>
      set ?ws \<subseteq> {CHR ''-'' # x |x. long_name_segment x}"
    by auto
  then show "RegExp_test longNameRegExp s"
    unfolding RegExp_test_lang lang_longNameRegExp by blast
qed

lemma shortNameRegExp_grammar: "RegExp_test shortNameRegExp s \<longleftrightarrow> short_name_grammar s"
  unfolding RegExp_test_lang shortNameRegExp_def lang_Seq_Chr short_name_grammar_def
  by (auto simp: short_name_class)

subsection \<open>The search for an invalid character\<close>

lemma invalid_character_test:
  "RegExp_test invalidArgumentNameRegExp [c] \<longleftrightarrow> \<not> argument_name_character c"
  unfolding RegExp_test_lang invalidArgumentNameRegExp_def
  by (simp add: argument_name_class)

lemma String_match_None:
  "String_match s invalidArgumentNameRegExp = None \<longleftrightarrow> (\<forall>c \<in> set s. argument_name_character c)"
  by (induction s) (simp_all add: invalid_character_test)

lemma String_match_Some:
  "String_match s invalidArgumentNameRegExp = Some m \<longleftrightarrow>
     (\<exists>pre c post. s = pre @ c # post \<and> (\<forall>x \<in> set pre. argument_name_character x) \<and>
        \<not> argument_name_character c \<and> m = [c])"
proof (induction s)
  case Nil
  then show ?case by simp
next
  case (Cons a s)
  show ?case
  proof (cases "argument_name_character a")
    case True
    have "(\<exists>pre c post. a # s = pre @ c # post \<and> (\<forall>x \<in> set pre. argument_name_character x) \<and>
            \<not> argument_name_character c \<and> m = [c]) \<longleftrightarrow>
          (\<exists>pre c post. s = pre @ c # post \<and> (\<forall>x \<in> set pre. argument_name_character x) \<and>
            \<not> argument_name_character c \<and> m = [c])"
      (is "?L \<longleftrightarrow> ?R")
    proof
      assume ?L
      then obtain pre c post where h: "a # s = pre @ c # post"
          "\<forall>x \<in> set pre. argument_name_character x" "\<not> argument_name_character c" "m = [c]"
        by blast
      with True obtain pre' where "pre = a # pre'" by (cases pre) auto
      with h have "s = pre' @ c # post \<and> (\<forall>x \<in> set pre'. argument_name_character x)" by simp
      with h show ?R by blast
    next
      assume ?R
      then obtain pre c post where h: "s = pre @ c # post"
          "\<forall>x \<in> set pre. argument_name_character x" "\<not> argument_name_character c" "m = [c]"
        by blast
      with True have "a # s = (a # pre) @ c # post \<and> (\<forall>x \<in> set (a # pre). argument_name_character x)"
        by simp
      with h show ?L by blast
    qed
    with True Cons show ?thesis
      by (simp add: invalid_character_test)
  next
    case False
    have "(\<exists>pre c post. a # s = pre @ c # post \<and> (\<forall>x \<in> set pre. argument_name_character x) \<and>
            \<not> argument_name_character c \<and> m = [c]) \<longleftrightarrow> m = [a]"
      (is "?L \<longleftrightarrow> _")
    proof
      assume ?L
      then obtain pre c post where h: "a # s = pre @ c # post"
          "\<forall>x \<in> set pre. argument_name_character x" "\<not> argument_name_character c" "m = [c]"
        by blast
      with False have "pre = []" by (cases pre) auto
      with h show "m = [a]" by simp
    next
      assume "m = [a]"
      with False have "a # s = [] @ a # s \<and> (\<forall>x \<in> set []. argument_name_character x) \<and>
          \<not> argument_name_character a \<and> m = [a]" by simp
      then show ?L by blast
    qed
    with False show ?thesis
      by (auto simp: invalid_character_test)
  qed
qed

subsection \<open>Upper-casing and array search\<close>

lemma of_char_below_256: "(of_char c :: nat) < 256"
proof -
  have "(of_char c :: nat) = of_char c mod 256"
    by (simp only: of_char_mod_256)
  also have "\<dots> < 256" by simp
  finally show ?thesis .
qed

lemma toUpperCase_unit_fixed:
  "toUpperCase_unit c = [of_char c] \<longleftrightarrow> \<not> lower_case_code_unit c"
proof -
  define n where "n = (of_char c :: nat)"
  have "n < 256"
    unfolding n_def by (rule of_char_below_256)
  moreover have "97 \<le> n \<and> n \<le> 122 \<longleftrightarrow> c \<in> set lower_case_letters"
    unfolding n_def by (rule range_lower)
  ultimately show ?thesis
    unfolding toUpperCase_unit_def lower_case_code_unit_def Let_def n_def [symmetric]
    by auto
qed

lemma toUpperCase_unit_head:
  "toUpperCase_unit c \<noteq> [of_char c] \<Longrightarrow> \<exists>n ns. toUpperCase_unit c = n # ns \<and> n \<noteq> of_char c"
  unfolding toUpperCase_unit_def Let_def
  by (auto split: if_splits)

lemma toUpperCase_differs:
  "toUpperCase s \<noteq> map of_char s \<longleftrightarrow> (\<exists>c \<in> set s. lower_case_code_unit c)"
proof (induction s)
  case Nil
  then show ?case by (simp add: toUpperCase_def)
next
  case (Cons a s)
  show ?case
  proof (cases "lower_case_code_unit a")
    case True
    then have "toUpperCase_unit a \<noteq> [of_char a]"
      by (simp add: toUpperCase_unit_fixed)
    then obtain n ns where "toUpperCase_unit a = n # ns" "n \<noteq> of_char a"
      using toUpperCase_unit_head by blast
    then have "toUpperCase (a # s) \<noteq> map of_char (a # s)"
      by (simp add: toUpperCase_def)
    with True show ?thesis by simp
  next
    case False
    then have "toUpperCase_unit a = [of_char a]"
      by (simp add: toUpperCase_unit_fixed)
    then have "toUpperCase (a # s) \<noteq> map of_char (a # s) \<longleftrightarrow> toUpperCase s \<noteq> map of_char s"
      by (simp add: toUpperCase_def)
    with False Cons show ?thesis by simp
  qed
qed

lemma argument_name_character_upper:
  assumes "argument_name_character c"
  shows "\<not> lower_case_code_unit c"
proof -
  from assms have "(of_char c :: nat) \<le> 95"
    using range_upper [of c] range_digit [of c]
    unfolding argument_name_character_def by auto
  then show ?thesis
    using range_lower [of c]
    unfolding lower_case_code_unit_def by auto
qed

lemma toUpperCase_fixed:
  "\<forall>c \<in> set s. argument_name_character c \<Longrightarrow> toUpperCase s = map of_char s"
  using toUpperCase_differs [of s] argument_name_character_upper by blast

lemma indexOf_from_absent: "0 \<le> i \<Longrightarrow> indexOf_from xs x i = - 1 \<longleftrightarrow> x \<notin> set xs"
proof (induction xs arbitrary: i)
  case Nil
  then show ?case by simp
next
  case (Cons y ys)
  from Cons.prems have "0 \<le> i + 1" by simp
  from Cons.IH [OF this] Cons.prems show ?case by auto
qed

lemma indexOf_absent: "indexOf xs x = - 1 \<longleftrightarrow> x \<notin> set xs"
  unfolding indexOf_def by (rule indexOf_from_absent) simp

section \<open>The constructors in terms of the grammars\<close>

lemma base_constructor_cases:
  "(CommandLineParameter_constructor def :: exn + 'v CommandLineParameter) =
     (if \<not> long_name_grammar (parameterLongName def)
      then Inl (Error (InvalidLongName (parameterLongName def)))
      else case parameterShortName def of
             None \<Rightarrow> Inr \<lparr> u_parserKey = None, longName = parameterLongName def,
                            shortName = None, description = definition_description def,
                            u_value = None \<rparr>
           | Some s \<Rightarrow>
               if s \<noteq> [] \<and> \<not> short_name_grammar s
               then Inl (Error (InvalidShortName s))
               else Inr \<lparr> u_parserKey = None, longName = parameterLongName def,
                          shortName = Some s, description = definition_description def,
                          u_value = None \<rparr>)"
  unfolding CommandLineParameter_constructor_def Let_def
  by (simp add: longNameRegExp_grammar shortNameRegExp_grammar split: option.splits)

lemma base_constructor_Inr:
  assumes "CommandLineParameter_constructor def = Inr base"
  shows "base = \<lparr> u_parserKey = None, longName = parameterLongName def,
                   shortName = parameterShortName def,
                   description = definition_description def, u_value = None \<rparr>"
  using assms unfolding base_constructor_cases
  by (auto split: if_splits option.splits)

lemmas concrete_constructors =
  CommandLineFlagParameter_constructor_def CommandLineIntegerParameter_constructor_def
  CommandLineStringParameter_constructor_def CommandLineStringListParameter_constructor_def

lemma with_argument_cases:
  assumes "(CommandLineParameter_constructor def :: exn + 'v CommandLineParameter) = Inr base"
  shows "(CommandLineParameterWithArgument_constructor def :: exn + 'v CommandLineParameterWithArgument) =
     (case definition_argumentName def of
        None \<Rightarrow> Inl TypeError
      | Some name \<Rightarrow>
          if name = [] then Inl (Error EmptyArgumentName)
          else if toUpperCase name \<noteq> map of_char name
          then Inl (Error (ArgumentNameNotUpperCase name))
          else case String_match name invalidArgumentNameRegExp of
                 Some m \<Rightarrow> Inl (Error (InvalidArgumentNameCharacter name m))
               | None \<Rightarrow>
                   Inr \<lparr> u_parserKey = None, longName = parameterLongName def,
                         shortName = parameterShortName def,
                         description = definition_description def, u_value = None,
                         argumentName = Some name \<rparr>)"
  using base_constructor_Inr [OF assms] assms
  unfolding CommandLineParameterWithArgument_constructor_def
  by (simp split: option.splits)

lemma with_argument_base_error:
  assumes "(CommandLineParameter_constructor def :: exn + 'v CommandLineParameter) = Inl e"
  shows "(CommandLineParameterWithArgument_constructor def :: exn + 'v CommandLineParameterWithArgument) = Inl e"
  using assms unfolding CommandLineParameterWithArgument_constructor_def by simp

lemma with_argument_Inr:
  assumes "(CommandLineParameterWithArgument_constructor def :: exn + 'v CommandLineParameterWithArgument) = Inr p"
  shows "\<exists>name. definition_argumentName def = Some name \<and> argument_name_grammar name \<and>
           p = \<lparr> u_parserKey = None, longName = parameterLongName def,
                 shortName = parameterShortName def,
                 description = definition_description def, u_value = None,
                 argumentName = Some name \<rparr>"
proof (cases "CommandLineParameter_constructor def :: exn + 'v CommandLineParameter")
  case (Inl e)
  from with_argument_base_error [OF this] assms show ?thesis by simp
next
  case (Inr base)
  from assms show ?thesis
    unfolding with_argument_cases [OF Inr]
    by (auto simp: String_match_None argument_name_grammar_def split: option.splits if_splits)
qed

lemma choice_cases:
  assumes "(CommandLineParameter_constructor def :: exn + 'v CommandLineParameter) = Inr base"
  shows "(CommandLineChoiceParameter_constructor def :: exn + 'v CommandLineChoiceParameter) =
     (if length (definition_alternatives def) < 2 then Inl (Error InsufficientAlternatives)
      else case definition_defaultValue def of
             Some v \<Rightarrow>
               if v \<noteq> [] \<and> v \<notin> set (definition_alternatives def)
               then Inl (Error (DefaultValueNotAnOption v (definition_alternatives def)))
               else Inr \<lparr> u_parserKey = None, longName = parameterLongName def,
                          shortName = parameterShortName def,
                          description = definition_description def, u_value = None,
                          alternatives = definition_alternatives def,
                          defaultValue = Some v \<rparr>
           | None \<Rightarrow>
               Inr \<lparr> u_parserKey = None, longName = parameterLongName def,
                     shortName = parameterShortName def,
                     description = definition_description def, u_value = None,
                     alternatives = definition_alternatives def,
                     defaultValue = None \<rparr>)"
  using base_constructor_Inr [OF assms] assms
  unfolding CommandLineChoiceParameter_constructor_def Let_def
  by (auto simp: indexOf_absent split: option.splits)

lemma choice_base_error:
  assumes "(CommandLineParameter_constructor def :: exn + 'v CommandLineParameter) = Inl e"
  shows "(CommandLineChoiceParameter_constructor def :: exn + 'v CommandLineChoiceParameter) = Inl e"
  using assms unfolding CommandLineChoiceParameter_constructor_def by simp

section \<open>The claims\<close>

subsection \<open>Names\<close>

text \<open>
  C4. Whatever the class, the construction fails with the long-name error exactly
  when \<open>parameterLongName\<close> is outside the grammar \<^verbatim>\<open>-(-[a-z0-9]+)+\<close>: the long-name
  check is passed exactly by the strings of the grammar. The error holds the offending
  string, and its message quotes it.
\<close>

theorem long_name_check:
  \<open>((CommandLineChoiceParameter_constructor def :: exn + 'v CommandLineChoiceParameter) =
        Inl (Error (InvalidLongName (parameterLongName def)))
      \<longleftrightarrow> \<not> long_name_grammar (parameterLongName def)) \<and>
   ((CommandLineFlagParameter_constructor def :: exn + 'v CommandLineFlagParameter) =
        Inl (Error (InvalidLongName (parameterLongName def)))
      \<longleftrightarrow> \<not> long_name_grammar (parameterLongName def)) \<and>
   ((CommandLineIntegerParameter_constructor def :: exn + 'v CommandLineIntegerParameter) =
        Inl (Error (InvalidLongName (parameterLongName def)))
      \<longleftrightarrow> \<not> long_name_grammar (parameterLongName def)) \<and>
   ((CommandLineStringParameter_constructor def :: exn + 'v CommandLineStringParameter) =
        Inl (Error (InvalidLongName (parameterLongName def)))
      \<longleftrightarrow> \<not> long_name_grammar (parameterLongName def)) \<and>
   ((CommandLineStringListParameter_constructor def :: exn + 'v CommandLineStringListParameter) =
        Inl (Error (InvalidLongName (parameterLongName def)))
      \<longleftrightarrow> \<not> long_name_grammar (parameterLongName def)) \<and>
   message (InvalidLongName (parameterLongName def)) =
     ''Invalid name: "'' @ parameterLongName def @ ''". The parameter long name must be''
       @ '' lower-case and use dash delimiters (e.g. "--do-a-thing")''\<close>
  unfolding concrete_constructors CommandLineParameterWithArgument_constructor_def
    CommandLineChoiceParameter_constructor_def base_constructor_cases Let_def
  by (simp split: option.splits)

text \<open>
  The name \<^verbatim>\<open>--max-count\<close> is in the grammar and accepted. The empty name, the
  upper-case \<^verbatim>\<open>--Max-Count\<close>, the single-dash \<^verbatim>\<open>-max\<close> and \<^verbatim>\<open>--max count\<close> with its
  space are outside it and rejected.
\<close>

theorem long_name_check_witness:
  "long_name_grammar ''--max-count'' \<and>
   (CommandLineIntegerParameter_constructor max_count_definition
      :: exn + int CommandLineIntegerParameter) =
     Inr \<lparr> u_parserKey = None, longName = ''--max-count'', shortName = Some ''-m'',
           description = ''The maximum count'', u_value = None,
           argumentName = Some ''NUMBER'' \<rparr> \<and>
   \<not> long_name_grammar '''' \<and>
   (CommandLineIntegerParameter_constructor (max_count_definition \<lparr> parameterLongName := '''' \<rparr>)
      :: exn + int CommandLineIntegerParameter) = Inl (Error (InvalidLongName '''')) \<and>
   \<not> long_name_grammar ''--Max-Count'' \<and>
   (CommandLineIntegerParameter_constructor
        (max_count_definition \<lparr> parameterLongName := ''--Max-Count'' \<rparr>)
      :: exn + int CommandLineIntegerParameter) = Inl (Error (InvalidLongName ''--Max-Count'')) \<and>
   \<not> long_name_grammar ''-max'' \<and>
   (CommandLineIntegerParameter_constructor (max_count_definition \<lparr> parameterLongName := ''-max'' \<rparr>)
      :: exn + int CommandLineIntegerParameter) = Inl (Error (InvalidLongName ''-max'')) \<and>
   \<not> long_name_grammar ''--max count'' \<and>
   (CommandLineIntegerParameter_constructor
        (max_count_definition \<lparr> parameterLongName := ''--max count'' \<rparr>)
      :: exn + int CommandLineIntegerParameter) = Inl (Error (InvalidLongName ''--max count''))"
proof -
  note integer = long_name_check [where 'v = int, THEN conjunct2, THEN conjunct2, THEN conjunct1]
  have good: "(CommandLineIntegerParameter_constructor max_count_definition
      :: exn + int CommandLineIntegerParameter) =
     Inr \<lparr> u_parserKey = None, longName = ''--max-count'', shortName = Some ''-m'',
           description = ''The maximum count'', u_value = None,
           argumentName = Some ''NUMBER'' \<rparr>"
    by code_simp
  have empty: "(CommandLineIntegerParameter_constructor
        (max_count_definition \<lparr> parameterLongName := '''' \<rparr>)
      :: exn + int CommandLineIntegerParameter) = Inl (Error (InvalidLongName ''''))"
    by code_simp
  have upper: "(CommandLineIntegerParameter_constructor
        (max_count_definition \<lparr> parameterLongName := ''--Max-Count'' \<rparr>)
      :: exn + int CommandLineIntegerParameter) = Inl (Error (InvalidLongName ''--Max-Count''))"
    by code_simp
  have single: "(CommandLineIntegerParameter_constructor
        (max_count_definition \<lparr> parameterLongName := ''-max'' \<rparr>)
      :: exn + int CommandLineIntegerParameter) = Inl (Error (InvalidLongName ''-max''))"
    by code_simp
  have space: "(CommandLineIntegerParameter_constructor
        (max_count_definition \<lparr> parameterLongName := ''--max count'' \<rparr>)
      :: exn + int CommandLineIntegerParameter) = Inl (Error (InvalidLongName ''--max count''))"
    by code_simp
  from good integer [of max_count_definition]
  have g0: "long_name_grammar ''--max-count''"
    by (simp add: max_count_definition_def)
  from empty integer [of "max_count_definition \<lparr> parameterLongName := '''' \<rparr>"]
  have g1: "\<not> long_name_grammar ''''"
    by simp
  from upper integer [of "max_count_definition \<lparr> parameterLongName := ''--Max-Count'' \<rparr>"]
  have g2: "\<not> long_name_grammar ''--Max-Count''"
    by simp
  from single integer [of "max_count_definition \<lparr> parameterLongName := ''-max'' \<rparr>"]
  have g3: "\<not> long_name_grammar ''-max''"
    by simp
  from space integer [of "max_count_definition \<lparr> parameterLongName := ''--max count'' \<rparr>"]
  have g4: "\<not> long_name_grammar ''--max count''"
    by simp
  from g0 good g1 empty g2 upper g3 single g4 space show ?thesis
    by (intro conjI)
qed

text \<open>
  C7, as the claim has it, fails: the empty string is a supplied short name outside
  \<^verbatim>\<open>-[a-zA-Z0-9]\<close>, and the construction succeeds.
\<close>

theorem short_name_check_counterexample:
  "parameterShortName (max_count_definition \<lparr> parameterShortName := Some '''' \<rparr>) = Some '''' \<and>
   \<not> short_name_grammar '''' \<and>
   (CommandLineFlagParameter_constructor (max_count_definition \<lparr> parameterShortName := Some '''' \<rparr>)
      :: exn + bool CommandLineFlagParameter) =
     Inr \<lparr> u_parserKey = None, longName = ''--max-count'', shortName = Some '''',
           description = ''The maximum count'', u_value = None \<rparr>"
proof -
  have "(CommandLineFlagParameter_constructor (max_count_definition \<lparr> parameterShortName := Some '''' \<rparr>)
      :: exn + bool CommandLineFlagParameter) =
     Inr \<lparr> u_parserKey = None, longName = ''--max-count'', shortName = Some '''',
           description = ''The maximum count'', u_value = None \<rparr>"
    by code_simp
  then show ?thesis
    by (simp add: short_name_grammar_def)
qed

text \<open>
  C7, amended. For a definition with a short name \<open>s\<close> supplied, whatever the class,
  the construction fails with the short-name error, which holds \<open>s\<close>, exactly when the
  long name is in its grammar (that check comes first), \<open>s\<close> is not empty and \<open>s\<close> is
  not a dash followed by a single letter or digit. So a non-empty short name passes
  the check exactly when it matches \<^verbatim>\<open>-[a-zA-Z0-9]\<close>, and the empty one always passes.
  The message of the error quotes \<open>s\<close>.
\<close>

theorem short_name_check:
  assumes "parameterShortName def = Some s"
  shows
    \<open>((CommandLineChoiceParameter_constructor def :: exn + 'v CommandLineChoiceParameter) =
          Inl (Error (InvalidShortName s))
        \<longleftrightarrow> long_name_grammar (parameterLongName def) \<and> s \<noteq> [] \<and> \<not> short_name_grammar s) \<and>
     ((CommandLineFlagParameter_constructor def :: exn + 'v CommandLineFlagParameter) =
          Inl (Error (InvalidShortName s))
        \<longleftrightarrow> long_name_grammar (parameterLongName def) \<and> s \<noteq> [] \<and> \<not> short_name_grammar s) \<and>
     ((CommandLineIntegerParameter_constructor def :: exn + 'v CommandLineIntegerParameter) =
          Inl (Error (InvalidShortName s))
        \<longleftrightarrow> long_name_grammar (parameterLongName def) \<and> s \<noteq> [] \<and> \<not> short_name_grammar s) \<and>
     ((CommandLineStringParameter_constructor def :: exn + 'v CommandLineStringParameter) =
          Inl (Error (InvalidShortName s))
        \<longleftrightarrow> long_name_grammar (parameterLongName def) \<and> s \<noteq> [] \<and> \<not> short_name_grammar s) \<and>
     ((CommandLineStringListParameter_constructor def :: exn + 'v CommandLineStringListParameter) =
          Inl (Error (InvalidShortName s))
        \<longleftrightarrow> long_name_grammar (parameterLongName def) \<and> s \<noteq> [] \<and> \<not> short_name_grammar s) \<and>
     message (InvalidShortName s) =
       ''Invalid name: "'' @ s @ ''". The parameter short name must be''
         @ '' a dash followed by a single letter (e.g. "-a")''\<close>
  using assms
  unfolding concrete_constructors CommandLineParameterWithArgument_constructor_def
    CommandLineChoiceParameter_constructor_def base_constructor_cases Let_def
  by (simp split: option.splits)

text \<open>
  The short name \<^verbatim>\<open>-m\<close> is accepted; \<^verbatim>\<open>-mc\<close>, with two characters after the dash,
  and \<^verbatim>\<open>-!\<close>, with punctuation, are rejected.
\<close>

theorem short_name_check_witness:
  "parameterShortName max_count_definition = Some ''-m'' \<and> short_name_grammar ''-m'' \<and>
   (CommandLineFlagParameter_constructor max_count_definition :: exn + bool CommandLineFlagParameter) =
     Inr \<lparr> u_parserKey = None, longName = ''--max-count'', shortName = Some ''-m'',
           description = ''The maximum count'', u_value = None \<rparr> \<and>
   long_name_grammar ''--max-count'' \<and> \<not> short_name_grammar ''-mc'' \<and>
   (CommandLineFlagParameter_constructor (max_count_definition \<lparr> parameterShortName := Some ''-mc'' \<rparr>)
      :: exn + bool CommandLineFlagParameter) = Inl (Error (InvalidShortName ''-mc'')) \<and>
   \<not> short_name_grammar ''-!'' \<and>
   (CommandLineFlagParameter_constructor (max_count_definition \<lparr> parameterShortName := Some ''-!'' \<rparr>)
      :: exn + bool CommandLineFlagParameter) = Inl (Error (InvalidShortName ''-!''))"
proof -
  note flag = short_name_check [where 'v = bool, THEN conjunct2, THEN conjunct1]
  have g1: "parameterShortName max_count_definition = Some ''-m''"
    by (simp add: max_count_definition_def)
  have g2: "parameterShortName (max_count_definition \<lparr> parameterShortName := Some ''-mc'' \<rparr>) =
      Some ''-mc''"
    by simp
  have g3: "parameterShortName (max_count_definition \<lparr> parameterShortName := Some ''-!'' \<rparr>) =
      Some ''-!''"
    by simp
  have good: "(CommandLineFlagParameter_constructor max_count_definition
      :: exn + bool CommandLineFlagParameter) =
     Inr \<lparr> u_parserKey = None, longName = ''--max-count'', shortName = Some ''-m'',
           description = ''The maximum count'', u_value = None \<rparr>"
    by code_simp
  have two: "(CommandLineFlagParameter_constructor
        (max_count_definition \<lparr> parameterShortName := Some ''-mc'' \<rparr>)
      :: exn + bool CommandLineFlagParameter) = Inl (Error (InvalidShortName ''-mc''))"
    by code_simp
  have punctuation: "(CommandLineFlagParameter_constructor
        (max_count_definition \<lparr> parameterShortName := Some ''-!'' \<rparr>)
      :: exn + bool CommandLineFlagParameter) = Inl (Error (InvalidShortName ''-!''))"
    by code_simp
  have m: "short_name_grammar ''-m''"
    by (simp add: short_name_grammar_def lower_case_letters_def)
  from two flag [OF g2]
  have mc: "long_name_grammar ''--max-count'' \<and> \<not> short_name_grammar ''-mc''"
    by (simp add: max_count_definition_def)
  from punctuation flag [OF g3]
  have bang: "\<not> short_name_grammar ''-!''"
    by (simp add: max_count_definition_def)
  from good flag [OF g1] have "\<not> (long_name_grammar ''--max-count'' \<and> \<not> short_name_grammar ''-m'')"
    by (simp add: max_count_definition_def)
  with g1 m good mc two bang punctuation show ?thesis
    by (intro conjI) simp_all
qed

text \<open>
  C10. When \<open>parameterShortName\<close> is the empty string, every class constructs as it
  does for a definition without a short name, except that the object's \<open>shortName\<close>
  is the empty string: the short-name check is not made, the short-name error is never
  raised, and a constructed object stores the empty string.
\<close>

theorem empty_short_name_accepted:
  assumes "parameterShortName def = Some []"
  shows
    "(CommandLineChoiceParameter_constructor def :: exn + 'v CommandLineChoiceParameter) =
       map_sum id (\<lambda>p. p \<lparr> shortName := Some [] \<rparr>)
         (CommandLineChoiceParameter_constructor (def \<lparr> parameterShortName := None \<rparr>)) \<and>
     (CommandLineChoiceParameter_constructor def :: exn + 'v CommandLineChoiceParameter) \<noteq>
       Inl (Error (InvalidShortName s)) \<and>
     (CommandLineChoiceParameter_constructor def = Inr choice \<longrightarrow> shortName choice = Some []) \<and>
     (CommandLineFlagParameter_constructor def :: exn + 'v CommandLineFlagParameter) =
       map_sum id (\<lambda>p. p \<lparr> shortName := Some [] \<rparr>)
         (CommandLineFlagParameter_constructor (def \<lparr> parameterShortName := None \<rparr>)) \<and>
     (CommandLineFlagParameter_constructor def :: exn + 'v CommandLineFlagParameter) \<noteq>
       Inl (Error (InvalidShortName s)) \<and>
     (CommandLineFlagParameter_constructor def = Inr flag \<longrightarrow> shortName flag = Some []) \<and>
     (CommandLineIntegerParameter_constructor def :: exn + 'v CommandLineIntegerParameter) =
       map_sum id (\<lambda>p. p \<lparr> shortName := Some [] \<rparr>)
         (CommandLineIntegerParameter_constructor (def \<lparr> parameterShortName := None \<rparr>)) \<and>
     (CommandLineIntegerParameter_constructor def :: exn + 'v CommandLineIntegerParameter) \<noteq>
       Inl (Error (InvalidShortName s)) \<and>
     (CommandLineIntegerParameter_constructor def = Inr integer \<longrightarrow> shortName integer = Some []) \<and>
     (CommandLineStringParameter_constructor def :: exn + 'v CommandLineStringParameter) =
       map_sum id (\<lambda>p. p \<lparr> shortName := Some [] \<rparr>)
         (CommandLineStringParameter_constructor (def \<lparr> parameterShortName := None \<rparr>)) \<and>
     (CommandLineStringParameter_constructor def :: exn + 'v CommandLineStringParameter) \<noteq>
       Inl (Error (InvalidShortName s)) \<and>
     (CommandLineStringParameter_constructor def = Inr string \<longrightarrow> shortName string = Some []) \<and>
     (CommandLineStringListParameter_constructor def :: exn + 'v CommandLineStringListParameter) =
       map_sum id (\<lambda>p. p \<lparr> shortName := Some [] \<rparr>)
         (CommandLineStringListParameter_constructor (def \<lparr> parameterShortName := None \<rparr>)) \<and>
     (CommandLineStringListParameter_constructor def :: exn + 'v CommandLineStringListParameter) \<noteq>
       Inl (Error (InvalidShortName s)) \<and>
     (CommandLineStringListParameter_constructor def = Inr string_list \<longrightarrow>
        shortName string_list = Some [])"
  using assms
  unfolding concrete_constructors CommandLineParameterWithArgument_constructor_def
    CommandLineChoiceParameter_constructor_def base_constructor_cases Let_def
  by (auto split: option.splits if_splits)

text \<open>The flag \<^verbatim>\<open>--max-count\<close> with the empty short name is constructed and keeps it.\<close>

theorem empty_short_name_accepted_witness:
  "parameterShortName (max_count_definition \<lparr> parameterShortName := Some '''' \<rparr>) = Some [] \<and>
   (CommandLineFlagParameter_constructor (max_count_definition \<lparr> parameterShortName := Some '''' \<rparr>)
      :: exn + bool CommandLineFlagParameter) =
     Inr \<lparr> u_parserKey = None, longName = ''--max-count'', shortName = Some '''',
           description = ''The maximum count'', u_value = None \<rparr>"
proof -
  have given: "parameterShortName (max_count_definition \<lparr> parameterShortName := Some '''' \<rparr>) = Some []"
    by simp
  have absent:
    "(CommandLineFlagParameter_constructor
        (max_count_definition \<lparr> parameterShortName := Some '''', parameterShortName := None \<rparr>)
      :: exn + bool CommandLineFlagParameter) =
     Inr \<lparr> u_parserKey = None, longName = ''--max-count'', shortName = None,
           description = ''The maximum count'', u_value = None \<rparr>"
    by code_simp
  from empty_short_name_accepted
      [OF given, where 'v = bool, THEN conjunct2, THEN conjunct2, THEN conjunct2, THEN conjunct1]
    absent
  show ?thesis by simp
qed

subsection \<open>Argument names\<close>

text \<open>
  C5, as the claim has it, fails: the name \<^verbatim>\<open>a!\<close> contains characters outside
  \<^verbatim>\<open>[A-Z0-9_]\<close>, the first of them \<^verbatim>\<open>a\<close>, and the construction fails with the case
  error, which names no character: the case check comes before the search for an
  invalid character.
\<close>

theorem argument_name_check_counterexample:
  "definition_argumentName (max_count_definition \<lparr> definition_argumentName := Some ''a!'' \<rparr>) =
     Some ''a!'' \<and>
   \<not> argument_name_character (CHR ''a'') \<and>
   (CommandLineIntegerParameter_constructor
        (max_count_definition \<lparr> definition_argumentName := Some ''a!'' \<rparr>)
      :: exn + int CommandLineIntegerParameter) = Inl (Error (ArgumentNameNotUpperCase ''a!'')) \<and>
   (CommandLineIntegerParameter_constructor
        (max_count_definition \<lparr> definition_argumentName := Some ''a!'' \<rparr>)
      :: exn + int CommandLineIntegerParameter) \<noteq>
     Inl (Error (InvalidArgumentNameCharacter ''a!'' ''a''))"
proof -
  have "(CommandLineIntegerParameter_constructor
        (max_count_definition \<lparr> definition_argumentName := Some ''a!'' \<rparr>)
      :: exn + int CommandLineIntegerParameter) = Inl (Error (ArgumentNameNotUpperCase ''a!''))"
    by code_simp
  moreover have "\<not> argument_name_character (CHR ''a'')"
    by (simp add: argument_name_character_def upper_case_letters_def digits_def)
  ultimately show ?thesis by simp
qed

text \<open>
  C5, amended. For an argument-bearing class (Integer, String and StringList all
  construct with the constructor of \<^verbatim>\<open>CommandLineParameterWithArgument\<close>) and a
  supplied \<open>argumentName\<close>: outside the argument-name grammar the construction fails.
  The checks run in the order of the source, after those of the base class. Once the
  base constructor has returned, the empty string gives the empty-name error; a
  string that differs from its upper-cased form, which is a string with a lower-case
  letter in it, gives the case error, which holds the string; a string equal to its
  upper-cased form with a character outside \<^verbatim>\<open>[A-Z0-9_]\<close> gives the invalid-character
  error, which holds the string and the first such character, and whose message quotes
  both; and a non-empty string of characters of \<^verbatim>\<open>[A-Z0-9_]\<close> passes and is stored as
  \<open>argumentName\<close>.
\<close>

theorem argument_name_check:
  assumes "definition_argumentName def = Some name"
  shows
    \<open>(CommandLineIntegerParameter_constructor def :: exn + 'v CommandLineIntegerParameter) =
        CommandLineParameterWithArgument_constructor def \<and>
     (CommandLineStringParameter_constructor def :: exn + 'v CommandLineStringParameter) =
        CommandLineParameterWithArgument_constructor def \<and>
     (CommandLineStringListParameter_constructor def :: exn + 'v CommandLineStringListParameter) =
        CommandLineParameterWithArgument_constructor def \<and>
     (toUpperCase name \<noteq> map of_char name \<longleftrightarrow> (\<exists>x \<in> set name. lower_case_code_unit x)) \<and>
     (\<not> argument_name_grammar name \<longrightarrow>
        (\<exists>e. (CommandLineParameterWithArgument_constructor def
                :: exn + 'v CommandLineParameterWithArgument) = Inl e)) \<and>
     ((CommandLineParameter_constructor def :: exn + 'v CommandLineParameter) = Inr base \<longrightarrow>
        (name = [] \<longrightarrow>
           (CommandLineParameterWithArgument_constructor def
              :: exn + 'v CommandLineParameterWithArgument) = Inl (Error EmptyArgumentName)) \<and>
        (toUpperCase name \<noteq> map of_char name \<longrightarrow>
           (CommandLineParameterWithArgument_constructor def
              :: exn + 'v CommandLineParameterWithArgument) =
             Inl (Error (ArgumentNameNotUpperCase name))) \<and>
        (toUpperCase name = map of_char name \<and> name = pre @ c # post \<and>
         (\<forall>x \<in> set pre. argument_name_character x) \<and> \<not> argument_name_character c \<longrightarrow>
           (CommandLineParameterWithArgument_constructor def
              :: exn + 'v CommandLineParameterWithArgument) =
             Inl (Error (InvalidArgumentNameCharacter name [c]))) \<and>
        (argument_name_grammar name \<longrightarrow>
           (CommandLineParameterWithArgument_constructor def
              :: exn + 'v CommandLineParameterWithArgument) =
             Inr \<lparr> u_parserKey = None, longName = parameterLongName def,
                   shortName = parameterShortName def,
                   description = definition_description def, u_value = None,
                   argumentName = Some name \<rparr>)) \<and>
     message (InvalidArgumentNameCharacter name [c]) =
       ''The argument name "'' @ name @ ''" contains an invalid character "'' @ [c] @ ''".''
         @ '' Only upper-case letters, numbers, and underscores are allowed.''\<close>
proof -
  have fails: "\<exists>e. (CommandLineParameterWithArgument_constructor def
                :: exn + 'v CommandLineParameterWithArgument) = Inl e"
    if "\<not> argument_name_grammar name"
  proof (cases "CommandLineParameterWithArgument_constructor def
                :: exn + 'v CommandLineParameterWithArgument")
    case (Inl e)
    then show ?thesis by blast
  next
    case (Inr p)
    from with_argument_Inr [OF this] assms that show ?thesis by simp
  qed
  have empty: "(CommandLineParameterWithArgument_constructor def
              :: exn + 'v CommandLineParameterWithArgument) = Inl (Error EmptyArgumentName)"
    if "(CommandLineParameter_constructor def :: exn + 'v CommandLineParameter) = Inr base"
      and "name = []"
    using that assms unfolding with_argument_cases [OF that(1)] by simp
  have lower: "(CommandLineParameterWithArgument_constructor def
              :: exn + 'v CommandLineParameterWithArgument) =
             Inl (Error (ArgumentNameNotUpperCase name))"
    if "(CommandLineParameter_constructor def :: exn + 'v CommandLineParameter) = Inr base"
      and "toUpperCase name \<noteq> map of_char name"
  proof -
    from that(2) have "name \<noteq> []"
      by (auto simp: toUpperCase_def)
    with that assms show ?thesis
      unfolding with_argument_cases [OF that(1)] by simp
  qed
  have invalid: "(CommandLineParameterWithArgument_constructor def
              :: exn + 'v CommandLineParameterWithArgument) =
             Inl (Error (InvalidArgumentNameCharacter name [c]))"
    if b: "(CommandLineParameter_constructor def :: exn + 'v CommandLineParameter) = Inr base"
      and u: "toUpperCase name = map of_char name" and n: "name = pre @ c # post"
      and p: "\<forall>x \<in> set pre. argument_name_character x" and c: "\<not> argument_name_character c"
  proof -
    from n p c have "String_match name invalidArgumentNameRegExp = Some [c]"
      unfolding String_match_Some by blast
    moreover from n have "name \<noteq> []" by simp
    ultimately show ?thesis
      using u assms unfolding with_argument_cases [OF b] by simp
  qed
  have valid: "(CommandLineParameterWithArgument_constructor def
              :: exn + 'v CommandLineParameterWithArgument) =
             Inr \<lparr> u_parserKey = None, longName = parameterLongName def,
                   shortName = parameterShortName def,
                   description = definition_description def, u_value = None,
                   argumentName = Some name \<rparr>"
    if b: "(CommandLineParameter_constructor def :: exn + 'v CommandLineParameter) = Inr base"
      and g: "argument_name_grammar name"
  proof -
    from g have "name \<noteq> []" and all: "\<forall>c \<in> set name. argument_name_character c"
      unfolding argument_name_grammar_def by simp_all
    moreover from all have "toUpperCase name = map of_char name" by (rule toUpperCase_fixed)
    moreover from all have "String_match name invalidArgumentNameRegExp = None"
      by (simp add: String_match_None)
    ultimately show ?thesis
      using assms unfolding with_argument_cases [OF b] by simp
  qed
  have wording: \<open>message (InvalidArgumentNameCharacter name [c]) =
       ''The argument name "'' @ name @ ''" contains an invalid character "'' @ [c] @ ''".''
         @ '' Only upper-case letters, numbers, and underscores are allowed.''\<close>
    by simp
  note cased = toUpperCase_differs [of name]
  show ?thesis
    unfolding concrete_constructors
    using fails empty lower invalid valid wording cased by blast
qed

text \<open>
  \<^verbatim>\<open>NUMBER\<close> is stored; the empty string fails with the empty-name error; \<^verbatim>\<open>Count\<close>,
  the accented letter U+00E9 and the sharp s U+00DF fail with the case error; and
  \<^verbatim>\<open>COUNT!\<close> fails with the invalid-character error naming \<^verbatim>\<open>!\<close>.
\<close>

theorem argument_name_check_witness:
  "definition_argumentName max_count_definition = Some ''NUMBER'' \<and>
   argument_name_grammar ''NUMBER'' \<and>
   (CommandLineIntegerParameter_constructor max_count_definition
      :: exn + int CommandLineIntegerParameter) =
     Inr \<lparr> u_parserKey = None, longName = ''--max-count'', shortName = Some ''-m'',
           description = ''The maximum count'', u_value = None,
           argumentName = Some ''NUMBER'' \<rparr> \<and>
   (CommandLineIntegerParameter_constructor
        (max_count_definition \<lparr> definition_argumentName := Some '''' \<rparr>)
      :: exn + int CommandLineIntegerParameter) = Inl (Error EmptyArgumentName) \<and>
   toUpperCase ''Count'' \<noteq> map of_char ''Count'' \<and>
   (CommandLineIntegerParameter_constructor
        (max_count_definition \<lparr> definition_argumentName := Some ''Count'' \<rparr>)
      :: exn + int CommandLineIntegerParameter) = Inl (Error (ArgumentNameNotUpperCase ''Count'')) \<and>
   toUpperCase [CHR 0xE9] = [201] \<and>
   (CommandLineIntegerParameter_constructor
        (max_count_definition \<lparr> definition_argumentName := Some [CHR 0xE9] \<rparr>)
      :: exn + int CommandLineIntegerParameter) = Inl (Error (ArgumentNameNotUpperCase [CHR 0xE9])) \<and>
   toUpperCase [CHR 0xDF] = [83, 83] \<and>
   (CommandLineIntegerParameter_constructor
        (max_count_definition \<lparr> definition_argumentName := Some [CHR 0xDF] \<rparr>)
      :: exn + int CommandLineIntegerParameter) = Inl (Error (ArgumentNameNotUpperCase [CHR 0xDF])) \<and>
   toUpperCase ''COUNT!'' = map of_char ''COUNT!'' \<and> \<not> argument_name_character (CHR ''!'') \<and>
   (CommandLineIntegerParameter_constructor
        (max_count_definition \<lparr> definition_argumentName := Some ''COUNT!'' \<rparr>)
      :: exn + int CommandLineIntegerParameter) =
     Inl (Error (InvalidArgumentNameCharacter ''COUNT!'' ''!''))"
proof -
  let ?base = "\<lparr> u_parserKey = None, longName = ''--max-count'', shortName = Some ''-m'',
      description = ''The maximum count'', u_value = None \<rparr> :: int CommandLineParameter"
  have b1: "CommandLineParameter_constructor max_count_definition = Inr ?base"
    by code_simp
  have b2: "CommandLineParameter_constructor
      (max_count_definition \<lparr> definition_argumentName := Some '''' \<rparr>) = Inr ?base"
    by code_simp
  have b3: "CommandLineParameter_constructor
      (max_count_definition \<lparr> definition_argumentName := Some ''Count'' \<rparr>) = Inr ?base"
    by code_simp
  have b4: "CommandLineParameter_constructor
      (max_count_definition \<lparr> definition_argumentName := Some ''COUNT!'' \<rparr>) = Inr ?base"
    by code_simp
  have b5: "CommandLineParameter_constructor
      (max_count_definition \<lparr> definition_argumentName := Some [CHR 0xE9] \<rparr>) = Inr ?base"
    by code_simp
  have b6: "CommandLineParameter_constructor
      (max_count_definition \<lparr> definition_argumentName := Some [CHR 0xDF] \<rparr>) = Inr ?base"
    by code_simp
  have a1: "definition_argumentName max_count_definition = Some ''NUMBER''"
    by (simp add: max_count_definition_def)
  have a2: "definition_argumentName
      (max_count_definition \<lparr> definition_argumentName := Some '''' \<rparr>) = Some ''''"
    by simp
  have a3: "definition_argumentName
      (max_count_definition \<lparr> definition_argumentName := Some ''Count'' \<rparr>) = Some ''Count''"
    by simp
  have a4: "definition_argumentName
      (max_count_definition \<lparr> definition_argumentName := Some ''COUNT!'' \<rparr>) = Some ''COUNT!''"
    by simp
  have a5: "definition_argumentName
      (max_count_definition \<lparr> definition_argumentName := Some [CHR 0xE9] \<rparr>) = Some [CHR 0xE9]"
    by simp
  have a6: "definition_argumentName
      (max_count_definition \<lparr> definition_argumentName := Some [CHR 0xDF] \<rparr>) = Some [CHR 0xDF]"
    by simp
  have chars: "argument_name_character (CHR ''N'')" "argument_name_character (CHR ''U'')"
    "argument_name_character (CHR ''M'')" "argument_name_character (CHR ''B'')"
    "argument_name_character (CHR ''E'')" "argument_name_character (CHR ''R'')"
    "argument_name_character (CHR ''C'')" "argument_name_character (CHR ''O'')"
    "argument_name_character (CHR ''T'')"
    by (simp_all add: argument_name_character_def upper_case_letters_def digits_def)
  have bang: "\<not> argument_name_character (CHR ''!'')"
    by (simp add: argument_name_character_def upper_case_letters_def digits_def)
  have g1: "argument_name_grammar ''NUMBER''"
    by (simp add: argument_name_grammar_def chars)
  have e2: "'''' = ([] :: string)" by simp
  have u3: "toUpperCase ''Count'' \<noteq> map of_char ''Count''"
    by (simp add: toUpperCase_def toUpperCase_unit_def)
  have u4: "toUpperCase ''COUNT!'' = map of_char ''COUNT!''"
    by (simp add: toUpperCase_def toUpperCase_unit_def)
  have v5: "toUpperCase [CHR 0xE9] = [201]"
    by (simp add: toUpperCase_def toUpperCase_unit_def)
  have v6: "toUpperCase [CHR 0xDF] = [83, 83]"
    by (simp add: toUpperCase_def toUpperCase_unit_def)
  from v5 have u5: "toUpperCase [CHR 0xE9] \<noteq> map of_char [CHR 0xE9]"
    by simp
  from v6 have u6: "toUpperCase [CHR 0xDF] \<noteq> map of_char [CHR 0xDF]"
    by simp
  have "''COUNT!'' = ''COUNT'' @ CHR ''!'' # []" by simp
  moreover have "\<forall>x \<in> set ''COUNT''. argument_name_character x"
    by (simp add: chars)
  ultimately have found: "toUpperCase ''COUNT!'' = map of_char ''COUNT!'' \<and>
      ''COUNT!'' = ''COUNT'' @ CHR ''!'' # [] \<and>
      (\<forall>x \<in> set ''COUNT''. argument_name_character x) \<and> \<not> argument_name_character (CHR ''!'')"
    using u4 bang by (intro conjI)
  note t1 = argument_name_check [OF a1, where 'v = int and base = ?base and pre = "[]"
      and c = "CHR ''!''" and post = "[]"]
  note t2 = argument_name_check [OF a2, where 'v = int and base = ?base and pre = "[]"
      and c = "CHR ''!''" and post = "[]"]
  note t3 = argument_name_check [OF a3, where 'v = int and base = ?base and pre = "[]"
      and c = "CHR ''!''" and post = "[]"]
  note t4 = argument_name_check [OF a4, where 'v = int and base = ?base and pre = "''COUNT''"
      and c = "CHR ''!''" and post = "[]"]
  note t5 = argument_name_check [OF a5, where 'v = int and base = ?base and pre = "[]"
      and c = "CHR ''!''" and post = "[]"]
  note t6 = argument_name_check [OF a6, where 'v = int and base = ?base and pre = "[]"
      and c = "CHR ''!''" and post = "[]"]
  note after_base =
    conjunct2 [THEN conjunct2, THEN conjunct2, THEN conjunct2, THEN conjunct2, THEN conjunct1,
      THEN mp]
  from t1 [THEN after_base, OF b1, THEN conjunct2, THEN conjunct2, THEN conjunct2, THEN mp, OF g1]
    t1 [THEN conjunct1]
  have r1: "(CommandLineIntegerParameter_constructor max_count_definition
      :: exn + int CommandLineIntegerParameter) =
     Inr \<lparr> u_parserKey = None, longName = ''--max-count'', shortName = Some ''-m'',
           description = ''The maximum count'', u_value = None,
           argumentName = Some ''NUMBER'' \<rparr>"
    by (simp add: max_count_definition_def)
  from t2 [THEN after_base, OF b2, THEN conjunct1, THEN mp, OF e2] t2 [THEN conjunct1]
  have r2: "(CommandLineIntegerParameter_constructor
        (max_count_definition \<lparr> definition_argumentName := Some '''' \<rparr>)
      :: exn + int CommandLineIntegerParameter) = Inl (Error EmptyArgumentName)"
    by simp
  from t3 [THEN after_base, OF b3, THEN conjunct2, THEN conjunct1, THEN mp, OF u3]
    t3 [THEN conjunct1]
  have r3: "(CommandLineIntegerParameter_constructor
        (max_count_definition \<lparr> definition_argumentName := Some ''Count'' \<rparr>)
      :: exn + int CommandLineIntegerParameter) = Inl (Error (ArgumentNameNotUpperCase ''Count''))"
    by simp
  from t4 [THEN after_base, OF b4, THEN conjunct2, THEN conjunct2, THEN conjunct1, THEN mp, OF found]
    t4 [THEN conjunct1]
  have r4: "(CommandLineIntegerParameter_constructor
        (max_count_definition \<lparr> definition_argumentName := Some ''COUNT!'' \<rparr>)
      :: exn + int CommandLineIntegerParameter) =
     Inl (Error (InvalidArgumentNameCharacter ''COUNT!'' ''!''))"
    by simp
  from t5 [THEN after_base, OF b5, THEN conjunct2, THEN conjunct1, THEN mp, OF u5]
    t5 [THEN conjunct1]
  have r5: "(CommandLineIntegerParameter_constructor
        (max_count_definition \<lparr> definition_argumentName := Some [CHR 0xE9] \<rparr>)
      :: exn + int CommandLineIntegerParameter) = Inl (Error (ArgumentNameNotUpperCase [CHR 0xE9]))"
    by simp
  from t6 [THEN after_base, OF b6, THEN conjunct2, THEN conjunct1, THEN mp, OF u6]
    t6 [THEN conjunct1]
  have r6: "(CommandLineIntegerParameter_constructor
        (max_count_definition \<lparr> definition_argumentName := Some [CHR 0xDF] \<rparr>)
      :: exn + int CommandLineIntegerParameter) = Inl (Error (ArgumentNameNotUpperCase [CHR 0xDF]))"
    by simp
  from a1 g1 r1 r2 u3 r3 v5 r5 v6 r6 u4 bang r4 show ?thesis
    by (intro conjI)
qed

text \<open>
  C2, as the claim has it, fails: with \<open>argumentName\<close> missing the three classes do
  not construct. The comparison with the empty string is false and the next statement
  calls \<^verbatim>\<open>toUpperCase\<close> on \<^verbatim>\<open>undefined\<close>.
\<close>

theorem absent_argument_name_counterexample:
  "definition_argumentName (max_count_definition \<lparr> definition_argumentName := None \<rparr>) = None \<and>
   (CommandLineIntegerParameter_constructor (max_count_definition \<lparr> definition_argumentName := None \<rparr>)
      :: exn + int CommandLineIntegerParameter) = Inl TypeError \<and>
   (CommandLineStringParameter_constructor (max_count_definition \<lparr> definition_argumentName := None \<rparr>)
      :: exn + string CommandLineStringParameter) = Inl TypeError \<and>
   (CommandLineStringListParameter_constructor (max_count_definition \<lparr> definition_argumentName := None \<rparr>)
      :: exn + string list CommandLineStringListParameter) = Inl TypeError"
  by (intro conjI) code_simp+

text \<open>
  C2, amended. For Integer, String and StringList the argument name is required, as
  the declaration \<^verbatim>\<open>argumentName: string\<close> says: the validation is never skipped, the
  construction does not succeed without a name, and the \<open>argumentName\<close> of a
  constructed object is always present, is the supplied name, and follows the
  argument-name grammar.
\<close>

theorem argument_name_required:
  "(CommandLineIntegerParameter_constructor def :: exn + 'v CommandLineIntegerParameter) =
      CommandLineParameterWithArgument_constructor def \<and>
   (CommandLineStringParameter_constructor def :: exn + 'v CommandLineStringParameter) =
      CommandLineParameterWithArgument_constructor def \<and>
   (CommandLineStringListParameter_constructor def :: exn + 'v CommandLineStringListParameter) =
      CommandLineParameterWithArgument_constructor def \<and>
   (definition_argumentName def = None \<longrightarrow>
      (\<exists>e. (CommandLineParameterWithArgument_constructor def
              :: exn + 'v CommandLineParameterWithArgument) = Inl e)) \<and>
   ((CommandLineParameterWithArgument_constructor def
        :: exn + 'v CommandLineParameterWithArgument) = Inr this \<longrightarrow>
      (\<exists>name. definition_argumentName def = Some name \<and> argument_name_grammar name \<and>
         argumentName this = Some name))"
proof -
  have absent: "\<exists>e. (CommandLineParameterWithArgument_constructor def
              :: exn + 'v CommandLineParameterWithArgument) = Inl e"
    if "definition_argumentName def = None"
  proof (cases "CommandLineParameterWithArgument_constructor def
              :: exn + 'v CommandLineParameterWithArgument")
    case (Inl e)
    then show ?thesis by blast
  next
    case (Inr p)
    from with_argument_Inr [OF this] that show ?thesis by simp
  qed
  have present: "\<exists>name. definition_argumentName def = Some name \<and> argument_name_grammar name \<and>
         argumentName this = Some name"
    if "(CommandLineParameterWithArgument_constructor def
        :: exn + 'v CommandLineParameterWithArgument) = Inr this"
    using with_argument_Inr [OF that] by auto
  show ?thesis
    unfolding concrete_constructors using absent present by blast
qed

text \<open>
  The string list \<^verbatim>\<open>--max-count NUMBER\<close> is constructed with its name; without the
  name nothing is constructed.
\<close>

theorem argument_name_required_witness:
  "(CommandLineStringListParameter_constructor max_count_definition
      :: exn + string list CommandLineStringListParameter) =
     Inr \<lparr> u_parserKey = None, longName = ''--max-count'', shortName = Some ''-m'',
           description = ''The maximum count'', u_value = None,
           argumentName = Some ''NUMBER'' \<rparr> \<and>
   definition_argumentName max_count_definition = Some ''NUMBER'' \<and>
   argument_name_grammar ''NUMBER'' \<and>
   definition_argumentName (max_count_definition \<lparr> definition_argumentName := None \<rparr>) = None \<and>
   (CommandLineStringListParameter_constructor
        (max_count_definition \<lparr> definition_argumentName := None \<rparr>)
      :: exn + string list CommandLineStringListParameter) \<noteq>
     Inr \<lparr> u_parserKey = None, longName = ''--max-count'', shortName = Some ''-m'',
           description = ''The maximum count'', u_value = None, argumentName = None \<rparr>"
proof -
  let ?made = "\<lparr> u_parserKey = None, longName = ''--max-count'', shortName = Some ''-m'',
      description = ''The maximum count'', u_value = None, argumentName = Some ''NUMBER'' \<rparr>
      :: string list CommandLineParameterWithArgument"
  let ?absent = "max_count_definition \<lparr> definition_argumentName := None \<rparr>"
  have made: "(CommandLineStringListParameter_constructor max_count_definition
      :: exn + string list CommandLineStringListParameter) = Inr ?made"
    by code_simp
  have name: "definition_argumentName max_count_definition = Some ''NUMBER''"
    by (simp add: max_count_definition_def)
  have none: "definition_argumentName ?absent = None"
    by simp
  note t = argument_name_required [where 'v = "string list" and def = max_count_definition
      and this = ?made]
  note a = argument_name_required [where 'v = "string list" and def = ?absent and this = ?made]
  from made t [THEN conjunct2, THEN conjunct2, THEN conjunct1]
  have "CommandLineParameterWithArgument_constructor max_count_definition = Inr ?made"
    by simp
  with t [THEN conjunct2, THEN conjunct2, THEN conjunct2, THEN conjunct2]
  have "\<exists>name. definition_argumentName max_count_definition = Some name \<and>
      argument_name_grammar name \<and> argumentName ?made = Some name"
    by (rule mp)
  then have grammar: "argument_name_grammar ''NUMBER''"
    by auto
  from a [THEN conjunct2, THEN conjunct2, THEN conjunct2, THEN conjunct1] none
  have "\<exists>e. (CommandLineParameterWithArgument_constructor ?absent
      :: exn + string list CommandLineParameterWithArgument) = Inl e"
    by (rule mp)
  with a [THEN conjunct2, THEN conjunct2, THEN conjunct1]
  have failed: "\<exists>e. (CommandLineStringListParameter_constructor ?absent
      :: exn + string list CommandLineStringListParameter) = Inl e"
    by simp
  from made name grammar none failed show ?thesis
    by auto
qed

subsection \<open>The choice class\<close>




text \<open>
  C6. With fewer than two alternatives the construction of a choice fails; the
  failure is the alternatives error exactly when the base constructor has returned
  and there are fewer than two alternatives, so with two or more the alternatives
  check is passed.
\<close>

theorem alternatives_check:
  "(length (definition_alternatives def) < 2 \<longrightarrow>
      (\<exists>e. (CommandLineChoiceParameter_constructor def :: exn + 'v CommandLineChoiceParameter) = Inl e)) \<and>
   ((CommandLineChoiceParameter_constructor def :: exn + 'v CommandLineChoiceParameter) =
        Inl (Error InsufficientAlternatives)
      \<longleftrightarrow> (\<exists>base :: 'v CommandLineParameter. CommandLineParameter_constructor def = Inr base) \<and>
          length (definition_alternatives def) < 2)"
proof (cases "CommandLineParameter_constructor def :: exn + 'v CommandLineParameter")
  case (Inl e)
  from choice_base_error [OF this] Inl show ?thesis
    unfolding base_constructor_cases
    by (auto split: if_splits option.splits)
next
  case (Inr base)
  from choice_cases [OF this] Inr show ?thesis
    by (auto split: option.splits)
qed

text \<open>One alternative is refused, two are not.\<close>

theorem alternatives_check_witness:
  "length (definition_alternatives (max_count_definition \<lparr> definition_alternatives := [''a''] \<rparr>)) < 2 \<and>
   (CommandLineChoiceParameter_constructor
        (max_count_definition \<lparr> definition_alternatives := [''a''] \<rparr>)
      :: exn + string CommandLineChoiceParameter) = Inl (Error InsufficientAlternatives) \<and>
   \<not> length (definition_alternatives max_count_definition) < 2 \<and>
   (CommandLineChoiceParameter_constructor max_count_definition
      :: exn + string CommandLineChoiceParameter) \<noteq> Inl (Error InsufficientAlternatives)"
proof -
  let ?one = "max_count_definition \<lparr> definition_alternatives := [''a''] \<rparr>"
  let ?base = "\<lparr> u_parserKey = None, longName = ''--max-count'', shortName = Some ''-m'',
      description = ''The maximum count'', u_value = None \<rparr> :: string CommandLineParameter"
  have "CommandLineParameter_constructor ?one = Inr ?base"
    by code_simp
  then have base: "\<exists>base :: string CommandLineParameter.
      CommandLineParameter_constructor ?one = Inr base" ..
  have few: "length (definition_alternatives ?one) < 2"
    by simp
  have two: "\<not> length (definition_alternatives max_count_definition) < 2"
    by (simp add: max_count_definition_def)
  from alternatives_check [where 'v = string and def = ?one, THEN conjunct2] base few
  have "(CommandLineChoiceParameter_constructor ?one :: exn + string CommandLineChoiceParameter) =
      Inl (Error InsufficientAlternatives)"
    by blast
  moreover
  from alternatives_check [where 'v = string and def = max_count_definition, THEN conjunct2] two
  have "(CommandLineChoiceParameter_constructor max_count_definition
      :: exn + string CommandLineChoiceParameter) \<noteq> Inl (Error InsufficientAlternatives)"
    by blast
  ultimately show ?thesis using few two by blast
qed

text \<open>
  C3, as the claim has it, fails: the empty string is a supplied default that is not
  among the alternatives \<^verbatim>\<open>a\<close>, \<open>b\<close>, and the construction succeeds and stores it.
\<close>

theorem default_value_check_counterexample:
  "definition_defaultValue (max_count_definition \<lparr> definition_defaultValue := Some '''' \<rparr>) = Some '''' \<and>
   '''' \<notin> set (definition_alternatives (max_count_definition \<lparr> definition_defaultValue := Some '''' \<rparr>)) \<and>
   (CommandLineChoiceParameter_constructor
        (max_count_definition \<lparr> definition_defaultValue := Some '''' \<rparr>)
      :: exn + string CommandLineChoiceParameter) =
     Inr \<lparr> u_parserKey = None, longName = ''--max-count'', shortName = Some ''-m'',
           description = ''The maximum count'', u_value = None,
           alternatives = [''a'', ''b''], defaultValue = Some '''' \<rparr>"
proof -
  have "(CommandLineChoiceParameter_constructor
        (max_count_definition \<lparr> definition_defaultValue := Some '''' \<rparr>)
      :: exn + string CommandLineChoiceParameter) =
     Inr \<lparr> u_parserKey = None, longName = ''--max-count'', shortName = Some ''-m'',
           description = ''The maximum count'', u_value = None,
           alternatives = [''a'', ''b''], defaultValue = Some '''' \<rparr>"
    by code_simp
  then show ?thesis
    by (simp add: max_count_definition_def)
qed

text \<open>
  C3, amended. For a choice whose base constructor has returned, with two or more
  alternatives and a default supplied: a non-empty default that is not among the
  alternatives fails with the error whose message gives the default and the
  alternatives, joined by commas; a default that is among the alternatives, or is the
  empty string, is stored in the constructed object.
\<close>

theorem default_value_check:
  assumes "(CommandLineParameter_constructor def :: exn + 'v CommandLineParameter) = Inr base"
    and "2 \<le> length (definition_alternatives def)"
    and "definition_defaultValue def = Some v"
  shows
    \<open>(v \<noteq> [] \<and> v \<notin> set (definition_alternatives def) \<longrightarrow>
        (CommandLineChoiceParameter_constructor def :: exn + 'v CommandLineChoiceParameter) =
          Inl (Error (DefaultValueNotAnOption v (definition_alternatives def)))) \<and>
     message (DefaultValueNotAnOption v (definition_alternatives def)) =
       ''The specified default value "'' @ v @ ''" is not one of the available options: ''
         @ Array_toString (definition_alternatives def) \<and>
     (v = [] \<or> v \<in> set (definition_alternatives def) \<longrightarrow>
        (CommandLineChoiceParameter_constructor def :: exn + 'v CommandLineChoiceParameter) =
          Inr \<lparr> u_parserKey = None, longName = parameterLongName def,
                shortName = parameterShortName def,
                description = definition_description def, u_value = None,
                alternatives = definition_alternatives def,
                defaultValue = Some v \<rparr>)\<close>
  using assms(2,3) unfolding choice_cases [OF assms(1)]
  by simp

text \<open>The default \<^verbatim>\<open>c\<close> is refused with the alternatives \<^verbatim>\<open>a\<close>, \<open>b\<close>; \<^verbatim>\<open>a\<close> is stored.\<close>

theorem default_value_check_witness:
  "(CommandLineChoiceParameter_constructor
        (max_count_definition \<lparr> definition_defaultValue := Some ''c'' \<rparr>)
      :: exn + string CommandLineChoiceParameter) =
     Inl (Error (DefaultValueNotAnOption ''c'' [''a'', ''b''])) \<and>
   (CommandLineChoiceParameter_constructor max_count_definition
      :: exn + string CommandLineChoiceParameter) =
     Inr \<lparr> u_parserKey = None, longName = ''--max-count'', shortName = Some ''-m'',
           description = ''The maximum count'', u_value = None,
           alternatives = [''a'', ''b''], defaultValue = Some ''a'' \<rparr>"
proof -
  let ?c = "max_count_definition \<lparr> definition_defaultValue := Some ''c'' \<rparr>"
  let ?base = "\<lparr> u_parserKey = None, longName = ''--max-count'', shortName = Some ''-m'',
      description = ''The maximum count'', u_value = None \<rparr> :: string CommandLineParameter"
  have b1: "CommandLineParameter_constructor max_count_definition = Inr ?base"
    by code_simp
  have b2: "CommandLineParameter_constructor ?c = Inr ?base"
    by code_simp
  have l1: "2 \<le> length (definition_alternatives max_count_definition)"
    by (simp add: max_count_definition_def)
  have l2: "2 \<le> length (definition_alternatives ?c)"
    by (simp add: max_count_definition_def)
  have d1: "definition_defaultValue max_count_definition = Some ''a''"
    by (simp add: max_count_definition_def)
  have d2: "definition_defaultValue ?c = Some ''c''"
    by simp
  have m1: "''a'' = [] \<or> ''a'' \<in> set (definition_alternatives max_count_definition)"
    by (simp add: max_count_definition_def)
  have m2: "''c'' \<noteq> [] \<and> ''c'' \<notin> set (definition_alternatives ?c)"
    by (simp add: max_count_definition_def)
  from default_value_check [OF b1 l1 d1, THEN conjunct2, THEN conjunct2, THEN mp, OF m1]
  have r1: "(CommandLineChoiceParameter_constructor max_count_definition
      :: exn + string CommandLineChoiceParameter) =
     Inr \<lparr> u_parserKey = None, longName = ''--max-count'', shortName = Some ''-m'',
           description = ''The maximum count'', u_value = None,
           alternatives = [''a'', ''b''], defaultValue = Some ''a'' \<rparr>"
    by (simp add: max_count_definition_def)
  from default_value_check [OF b2 l2 d2, THEN conjunct1, THEN mp, OF m2]
  have r2: "(CommandLineChoiceParameter_constructor ?c
      :: exn + string CommandLineChoiceParameter) =
     Inl (Error (DefaultValueNotAnOption ''c'' [''a'', ''b'']))"
    by (simp add: max_count_definition_def)
  from r1 r2 show ?thesis by (intro conjI)
qed

subsection \<open>The value slot\<close>

text \<open>
  C8. After \<^verbatim>\<open>_setValue(data)\<close> the accessor \<^verbatim>\<open>value\<close> returns \<open>data\<close> itself,
  whatever the payload and whatever the class of the object (every class is an
  instance of the record scheme, and nothing ties the type of the payload to the
  class); nothing is checked or converted. A list of strings comes back as the same
  list, in the same order.
\<close>

theorem value_after_setValue: "value_get (setValue this data) = data"
  by (simp add: setValue_def value_get_def)

text \<open>
  A string-list parameter given \<^verbatim>\<open>["x","y"]\<close> and a flag given \<^verbatim>\<open>true\<close>.
\<close>

theorem value_after_setValue_witness:
  "value_get (setValue
      \<lparr> u_parserKey = None, longName = ''--path'', shortName = None,
        description = ''The paths'', u_value = None, argumentName = Some ''PATH'' \<rparr>
      (Some [''x'', ''y''])) = Some [''x'', ''y''] \<and>
   value_get (setValue
      \<lparr> u_parserKey = None, longName = ''--force'', shortName = Some ''-f'',
        description = ''Force'', u_value = None \<rparr>
      (Some True)) = Some True"
  by (intro conjI) (rule value_after_setValue)+

text \<open>
  C9. \<^verbatim>\<open>_setValue\<close> changes the value slot only. The fields of the base class and
  the whole extension of the record (the fields a subclass adds) are the same before
  and after, and putting the old value back gives the old object; in particular
  \<open>argumentName\<close>, \<open>alternatives\<close> and \<open>defaultValue\<close> are unchanged, and so is the
  kind each class reports.
\<close>

theorem setValue_frame:
  "u_parserKey (setValue this data) = u_parserKey this \<and>
   longName (setValue this data) = longName this \<and>
   shortName (setValue this data) = shortName this \<and>
   description (setValue this data) = description this \<and>
   CommandLineParameter.more (setValue this data) = CommandLineParameter.more this \<and>
   (setValue this data) \<lparr> u_value := u_value this \<rparr> = this \<and>
   argumentName (setValue with_argument data) = argumentName with_argument \<and>
   alternatives (setValue choice data) = alternatives choice \<and>
   defaultValue (setValue choice data) = defaultValue choice \<and>
   CommandLineChoiceParameter_kind (setValue choice' data) = CommandLineChoiceParameter_kind choice' \<and>
   CommandLineFlagParameter_kind (setValue flag data) = CommandLineFlagParameter_kind flag \<and>
   CommandLineIntegerParameter_kind (setValue integer data) = CommandLineIntegerParameter_kind integer \<and>
   CommandLineStringParameter_kind (setValue string data) = CommandLineStringParameter_kind string \<and>
   CommandLineStringListParameter_kind (setValue string_list data) =
     CommandLineStringListParameter_kind string_list"
  by (simp add: setValue_def CommandLineChoiceParameter_kind_def CommandLineFlagParameter_kind_def
      CommandLineIntegerParameter_kind_def CommandLineStringParameter_kind_def
      CommandLineStringListParameter_kind_def)

end
